theory Spec2Isabelle
  imports Complex_Main
begin

section \<open>JavaScript strings\<close>

text \<open>
  A JavaScript string is a sequence of UTF-16 code units; \<open>length\<close>, \<open>substring\<close>,
  \<open>trim\<close> and a regular expression without the \<open>u\<close> flag all work on code units.
  A code unit is modelled by its number. ASCII literals of the source are written with
  \<open>ascii\<close>; the Korean literals are spelled out as code units.
\<close>

type_synonym jsstring = "nat list"

definition ascii :: "string \<Rightarrow> jsstring" where
  "ascii s = map of_char s"

text \<open>
  The code units that \<open>String.prototype.trim\<close> strips and that \<open>\s\<close> matches:
  WhiteSpace and LineTerminator of ECMA-262 (TAB, LF, VT, FF, CR, SP, NBSP, U+1680,
  U+2000..U+200A, U+2028, U+2029, U+202F, U+205F, U+3000, U+FEFF).
\<close>

definition is_whitespace :: "nat \<Rightarrow> bool" where
  "is_whitespace c \<longleftrightarrow>
     c = 9 \<or> c = 10 \<or> c = 11 \<or> c = 12 \<or> c = 13 \<or> c = 32 \<or> c = 160 \<or> c = 5760 \<or>
     (8192 \<le> c \<and> c \<le> 8202) \<or> c = 8232 \<or> c = 8233 \<or> c = 8239 \<or> c = 8287 \<or>
     c = 12288 \<or> c = 65279"

definition is_newline :: "nat \<Rightarrow> bool" where
  "is_newline c \<longleftrightarrow> c = 10"

definition trim :: "jsstring \<Rightarrow> jsstring" where
  "trim s = rev (dropWhile is_whitespace (rev (dropWhile is_whitespace s)))"

text \<open>
  \<open>s.replace(/[class]+/g, r)\<close>: every maximal run of code units of the class is
  replaced by \<open>r\<close>; the scan resumes after the run.
\<close>

function replace_runs :: "(nat \<Rightarrow> bool) \<Rightarrow> jsstring \<Rightarrow> jsstring \<Rightarrow> jsstring" where
  "replace_runs P r [] = []"
| "replace_runs P r (c # cs) =
     (if P c then r @ replace_runs P r (dropWhile P cs) else c # replace_runs P r cs)"
  by pat_completeness auto
termination
  by (relation "measure (\<lambda>(P, r, s). length s)")
     (auto simp: length_dropWhile_le less_Suc_eq_le)

text \<open>\<open>s.includes(sub)\<close>: \<open>sub\<close> occurs in \<open>s\<close> as a contiguous block.\<close>

fun str_includes :: "jsstring \<Rightarrow> jsstring \<Rightarrow> bool" where
  "str_includes [] sub = (sub = [])"
| "str_includes (c # cs) sub = (take (length sub) (c # cs) = sub \<or> str_includes cs sub)"

section \<open>Input sanitizer (generate-todo route)\<close>

text \<open>
  The value of \<open>body.prompt\<close> as \<open>validateInput\<close> receives it: \<open>undefined\<close> or
  \<open>null\<close>, some JSON value that is not a string, or a string.
\<close>

datatype prompt_value = Missing | NotAString | Str jsstring

record validation =
  valid :: bool
  error :: "jsstring option"

text \<open>The four messages of \<open>validateInput\<close>, in source order: "enter a valid task",
  "too short, at least 2 characters", "too long, at most 500 characters",
  "must contain valid characters".\<close>

definition msg_enter_valid :: jsstring where
  "msg_enter_valid = [50976, 54952, 54620, 32, 54624, 32, 51068, 32, 45236, 50857, 51012, 32,
     51077, 47141, 54644, 51452, 49464, 50836, 46]"

definition msg_too_short :: jsstring where
  "msg_too_short = [54624, 32, 51068, 32, 45236, 50857, 51060, 32, 45320, 47924, 32, 51687,
     49845, 45768, 45796, 46, 32, 52572, 49548, 32, 50, 51088, 32, 51060, 49345, 32, 51077,
     47141, 54644, 51452, 49464, 50836, 46]"

definition msg_too_long :: jsstring where
  "msg_too_long = [54624, 32, 51068, 32, 45236, 50857, 51060, 32, 45320, 47924, 32, 44609,
     45768, 45796, 46, 32, 52572, 45824, 32, 53, 48, 48, 51088, 44620, 51648, 32, 51077, 47141,
     32, 44032, 45733, 54633, 45768, 45796, 46]"

definition msg_no_valid_chars :: jsstring where
  "msg_no_valid_chars = [54624, 32, 51068, 32, 45236, 50857, 50640, 32, 50976, 54952, 54620,
     32, 47928, 51088, 44032, 32, 54252, 54632, 46104, 50612, 50556, 32, 54633, 45768, 45796,
     46]"

text \<open>The character class \<open>[U+AC00-U+D7A3a-zA-Z0-9]\<close>: a Hangul syllable, an ASCII
  letter or an ASCII digit.\<close>

definition is_valid_content_char :: "nat \<Rightarrow> bool" where
  "is_valid_content_char c \<longleftrightarrow>
     (44032 \<le> c \<and> c \<le> 55203) \<or> (97 \<le> c \<and> c \<le> 122) \<or> (65 \<le> c \<and> c \<le> 90) \<or>
     (48 \<le> c \<and> c \<le> 57)"

definition hasValidContent :: "jsstring \<Rightarrow> bool" where
  "hasValidContent s = list_ex is_valid_content_char s"

definition invalid :: "jsstring \<Rightarrow> validation" where
  "invalid m = \<lparr>valid = False, error = Some m\<rparr>"

fun validateInput :: "prompt_value \<Rightarrow> validation" where
  "validateInput Missing = invalid msg_enter_valid"
| "validateInput NotAString = invalid msg_enter_valid"
| "validateInput (Str text) =
     (if text = [] then invalid msg_enter_valid
      else let trimmed = trim text in
        if length trimmed < 2 then invalid msg_too_short
        else if length text > 500 then invalid msg_too_long
        else if \<not> hasValidContent trimmed then invalid msg_no_valid_chars
        else \<lparr>valid = True, error = None\<rparr>)"

definition preprocessInput :: "jsstring \<Rightarrow> jsstring" where
  "preprocessInput text =
     (let processed = trim text;
          processed = replace_runs is_whitespace (ascii '' '') processed;
          processed = replace_runs is_newline (ascii [CHR 0x0A]) processed
      in processed)"


section \<open>Dates\<close>

text \<open>
  A \<open>Date\<close> object holds a time value: milliseconds since 1970-01-01T00:00:00Z, or
  NaN for an "Invalid Date". \<open>None\<close> is NaN. The relational operators convert both
  dates to their time values and are false as soon as one of them is NaN.

  \<open>new Date(string)\<close> belongs to the host. The functions below take it as the
  parameter \<open>parse\<close>, and the offset of the host's local time from UTC as \<open>tz\<close>
  (milliseconds, local = UTC + tz; a zone without daylight-saving changes).
\<close>

type_synonym date = "int option"

definition msPerDay :: int where
  "msPerDay = 86400000"

definition date_lt :: "date \<Rightarrow> date \<Rightarrow> bool" where
  "date_lt a b = (case a of None \<Rightarrow> False | Some x \<Rightarrow> (case b of None \<Rightarrow> False | Some y \<Rightarrow> x < y))"

definition date_le :: "date \<Rightarrow> date \<Rightarrow> bool" where
  "date_le a b = (case a of None \<Rightarrow> False | Some x \<Rightarrow> (case b of None \<Rightarrow> False | Some y \<Rightarrow> x \<le> y))"

definition date_ge :: "date \<Rightarrow> date \<Rightarrow> bool" where
  "date_ge a b = date_le b a"

text \<open>\<open>Day(LocalTime(t))\<close>: the number of the local calendar day that holds \<open>t\<close>.\<close>

definition localDay :: "int \<Rightarrow> int \<Rightarrow> int" where
  "localDay tz t = (t + tz) div msPerDay"

text \<open>\<open>d.getDay()\<close>: the local weekday, 0 = Sunday .. 6 = Saturday (day 0 was a
  Thursday).\<close>

definition getDay :: "int \<Rightarrow> int \<Rightarrow> int" where
  "getDay tz t = (localDay tz t + 4) mod 7"

text \<open>\<open>d.setHours(h, m, s, ms)\<close>: the same local calendar day, at the given local time.\<close>

definition setHours :: "int \<Rightarrow> int \<Rightarrow> int \<Rightarrow> int \<Rightarrow> int \<Rightarrow> int \<Rightarrow> int" where
  "setHours tz t h m s ms =
     localDay tz t * msPerDay + (h * 3600000 + m * 60000 + s * 1000 + ms) - tz"

text \<open>
  \<open>d.setDate(e.getDate() + k)\<close> where \<open>e\<close> holds the same time value as \<open>d\<close>: ECMA-262
  builds the new day with \<open>MakeDay(year, month, date + k)\<close>, which is \<open>k\<close> days after
  the day of \<open>d\<close>, and keeps the local time within the day.
\<close>

definition setDate_rel :: "int \<Rightarrow> int \<Rightarrow> int" where
  "setDate_rel t k = t + k * msPerDay"

subsection \<open>The date-time string format of ECMA-262\<close>

text \<open>
  A reference \<open>parse\<close> for closed computations: \<open>YYYY-MM-DD\<close> (read as UTC) and
  \<open>YYYY-MM-DDTHH:mm:ss\<close> with an optional \<open>.sss\<close> and an optional \<open>Z\<close> or
  \<open>+HH:mm\<close>/\<open>-HH:mm\<close> (read as local time without one). Every other string is an
  Invalid Date here; what an engine does with it is implementation-defined.
\<close>

definition digit :: "nat \<Rightarrow> nat option" where
  "digit c = (if 48 \<le> c \<and> c \<le> 57 then Some (c - 48) else None)"

fun digits_acc :: "nat \<Rightarrow> jsstring \<Rightarrow> nat option" where
  "digits_acc acc [] = Some acc"
| "digits_acc acc (c # cs) =
     (case digit c of None \<Rightarrow> None | Some d \<Rightarrow> digits_acc (10 * acc + d) cs)"

definition digits :: "jsstring \<Rightarrow> int option" where
  "digits s = (if s = [] then None else map_option int (digits_acc 0 s))"

definition is_leap :: "int \<Rightarrow> bool" where
  "is_leap y \<longleftrightarrow> y mod 4 = 0 \<and> (y mod 100 \<noteq> 0 \<or> y mod 400 = 0)"

definition days_in_month :: "int \<Rightarrow> int \<Rightarrow> int" where
  "days_in_month y m =
     (if m = 2 then (if is_leap y then 29 else 28)
      else if m = 4 \<or> m = 6 \<or> m = 9 \<or> m = 11 then 30 else 31)"

text \<open>The day number of a civil date (\<open>MakeDay\<close>), 1970-01-01 being day 0.\<close>

definition days_from_civil :: "int \<Rightarrow> int \<Rightarrow> int \<Rightarrow> int" where
  "days_from_civil y m d =
     (let y' = (if m \<le> 2 then y - 1 else y);
          era = y' div 400;
          yoe = y' mod 400;
          mp = (m + 9) mod 12;
          doy = (153 * mp + 2) div 5 + d - 1;
          doe = yoe * 365 + yoe div 4 - yoe div 100 + doy
      in era * 146097 + doe - 719468)"

definition parse_ymd :: "jsstring \<Rightarrow> int option" where
  "parse_ymd s =
     (if length s = 10 \<and> s ! 4 = 45 \<and> s ! 7 = 45 then
        (case (digits (take 4 s), digits (take 2 (drop 5 s)), digits (drop 8 s)) of
           (Some y, Some m, Some d) \<Rightarrow>
             if 1 \<le> m \<and> m \<le> 12 \<and> 1 \<le> d \<and> d \<le> days_in_month y m
             then Some (days_from_civil y m d) else None
         | _ \<Rightarrow> None)
      else None)"

definition parse_hms :: "jsstring \<Rightarrow> int option" where
  "parse_hms s =
     (if length s = 8 \<and> s ! 2 = 58 \<and> s ! 5 = 58 then
        (case (digits (take 2 s), digits (take 2 (drop 3 s)), digits (drop 6 s)) of
           (Some h, Some m, Some sec) \<Rightarrow>
             if h \<le> 23 \<and> m \<le> 59 \<and> sec \<le> 59
             then Some (h * 3600000 + m * 60000 + sec * 1000) else None
         | _ \<Rightarrow> None)
      else None)"

text \<open>The offset suffix: the number of milliseconds to subtract to reach UTC.\<close>

definition parse_offset :: "int \<Rightarrow> jsstring \<Rightarrow> int option" where
  "parse_offset tz s =
     (if s = [] then Some tz
      else if s = [90] then Some 0
      else if length s = 6 \<and> (s ! 0 = 43 \<or> s ! 0 = 45) \<and> s ! 3 = 58 then
        (case (digits (take 2 (drop 1 s)), digits (drop 4 s)) of
           (Some h, Some m) \<Rightarrow>
             if h \<le> 23 \<and> m \<le> 59
             then Some ((if s ! 0 = 43 then 1 else - 1) * (h * 3600000 + m * 60000))
             else None
         | _ \<Rightarrow> None)
      else None)"

definition parse_fraction :: "jsstring \<Rightarrow> (int \<times> jsstring) option" where
  "parse_fraction s =
     (if s \<noteq> [] \<and> hd s = 46 then
        (case digits (take 3 (drop 1 s)) of
           Some ms \<Rightarrow> if 4 \<le> length s then Some (ms, drop 4 s) else None
         | None \<Rightarrow> None)
      else Some (0, s))"

definition iso_parse :: "int \<Rightarrow> jsstring \<Rightarrow> date" where
  "iso_parse tz s =
     (if length s = 10 then map_option (\<lambda>d. d * msPerDay) (parse_ymd s)
      else if 19 \<le> length s \<and> s ! 10 = 84 then
        (case (parse_ymd (take 10 s), parse_hms (take 8 (drop 11 s)),
               parse_fraction (drop 19 s)) of
           (Some d, Some t, Some (ms, rest)) \<Rightarrow>
             (case parse_offset tz rest of
                Some off \<Rightarrow> Some (d * msPerDay + t + ms - off)
              | None \<Rightarrow> None)
         | _ \<Rightarrow> None)
      else None)"

text \<open>\<open>s.split('T')[0]\<close>: the part of \<open>s\<close> before its first \<open>T\<close>.\<close>

definition split_T_0 :: "jsstring \<Rightarrow> jsstring" where
  "split_T_0 s = takeWhile (\<lambda>c. c \<noteq> 84) s"


section \<open>Repair pass (generate-todo route)\<close>

text \<open>
  \<open>GeneratedTodo\<close> as the repair pass may receive it: every field can be missing
  (\<open>None\<close> is \<open>undefined\<close>), and \<open>priority\<close> is any string until it is checked.
\<close>

record generated_todo =
  title :: "jsstring option"
  description :: "jsstring option"
  due_date :: "jsstring option"
  due_time :: "jsstring option"
  priority :: "jsstring option"
  category :: "jsstring list option"

text \<open>The fallback title ("task") and the default category ("personal").\<close>

definition fallback_title :: jsstring where
  "fallback_title = [54624, 32, 51068]"

definition default_category :: jsstring where
  "default_category = [44060, 51064]"

text \<open>\<open>/^([0-1][0-9]|2[0-3]):[0-5][0-9]$/.test(s)\<close>\<close>

definition timeRegex_test :: "jsstring \<Rightarrow> bool" where
  "timeRegex_test s =
     (case s of
        [a, b, c, d, e] \<Rightarrow>
          (((a = 48 \<or> a = 49) \<and> 48 \<le> b \<and> b \<le> 57) \<or> (a = 50 \<and> 48 \<le> b \<and> b \<le> 51)) \<and>
          c = 58 \<and> (48 \<le> d \<and> d \<le> 53) \<and> (48 \<le> e \<and> e \<le> 57)
      | _ \<Rightarrow> False)"

text \<open>A string is truthy when it is present and not empty.\<close>

definition truthy :: "jsstring option \<Rightarrow> bool" where
  "truthy v = (case v of None \<Rightarrow> False | Some s \<Rightarrow> s \<noteq> [])"

definition repair_title :: "jsstring option \<Rightarrow> jsstring" where
  "repair_title t =
     (case t of
        None \<Rightarrow> fallback_title
      | Some raw \<Rightarrow>
          if raw = [] then fallback_title
          else let t1 = trim raw;
                   t2 = (if length t1 > 100 then take 97 t1 @ ascii ''...'' else t1)
               in if length t2 < 2 then fallback_title else t2)"

definition repair_description :: "jsstring option \<Rightarrow> jsstring option" where
  "repair_description d =
     (case d of
        None \<Rightarrow> None
      | Some raw \<Rightarrow>
          if raw = [] then Some raw
          else let d1 = trim raw in if length d1 = 0 then None else Some d1)"

definition repair_due_date ::
  "(jsstring \<Rightarrow> date) \<Rightarrow> int \<Rightarrow> jsstring \<Rightarrow> jsstring option \<Rightarrow> jsstring option" where
  "repair_due_date parse tz currentDate d =
     (case d of
        None \<Rightarrow> None
      | Some raw \<Rightarrow>
          if raw = [] then Some raw
          else let dueDate = parse raw;
                   today = parse currentDate;
                   today = map_option (\<lambda>t. setHours tz t 0 0 0 0) today;
                   dueDate = map_option (\<lambda>t. setHours tz t 0 0 0 0) dueDate
               in if date_lt dueDate today then Some currentDate else Some raw)"

definition repair_priority :: "jsstring option \<Rightarrow> jsstring" where
  "repair_priority p =
     (case p of
        None \<Rightarrow> ascii ''medium''
      | Some raw \<Rightarrow>
          if raw = [] \<or> raw \<notin> set [ascii ''low'', ascii ''medium'', ascii ''high'']
          then ascii ''medium'' else raw)"

definition repair_category :: "jsstring list option \<Rightarrow> jsstring list" where
  "repair_category c =
     (case c of
        None \<Rightarrow> [default_category]
      | Some cs \<Rightarrow> if length cs = 0 then [default_category] else cs)"

definition repair_due_time :: "jsstring option \<Rightarrow> jsstring option" where
  "repair_due_time t =
     (case t of
        None \<Rightarrow> None
      | Some raw \<Rightarrow>
          if raw = [] then Some raw
          else if \<not> timeRegex_test raw then Some (ascii ''09:00'') else Some raw)"

definition postprocessTodo ::
  "(jsstring \<Rightarrow> date) \<Rightarrow> int \<Rightarrow> generated_todo \<Rightarrow> jsstring \<Rightarrow> generated_todo" where
  "postprocessTodo parse tz todo currentDate =
     \<lparr>title = Some (repair_title (title todo)),
      description = repair_description (description todo),
      due_date = repair_due_date parse tz currentDate (due_date todo),
      due_time = repair_due_time (due_time todo),
      priority = Some (repair_priority (priority todo)),
      category = Some (repair_category (category todo))\<rparr>"

text \<open>
  The civil date of an instant, as the specification reads it: the number of its
  calendar day in UTC+9 (day 0 is 1970-01-01). The resolution date is a date-only
  string; it denotes the day whose UTC midnight it parses to.
\<close>

definition civil_day :: "int \<Rightarrow> int" where
  "civil_day x = (x + 32400000) div msPerDay"

section \<open>The generate-todo handler\<close>

text \<open>
  What a \<open>catch\<close> block reads of a thrown value: \<open>name\<close>, \<open>message\<close> and \<open>code\<close>,
  each possibly missing. Optional chaining makes a test on a missing field false.
\<close>

record js_error =
  name :: "jsstring option"
  message :: "jsstring option"
  code :: "jsstring option"

definition message_includes :: "js_error \<Rightarrow> string \<Rightarrow> bool" where
  "message_includes e sub =
     (case message e of None \<Rightarrow> False | Some m \<Rightarrow> str_includes m (ascii sub))"

record 'a response =
  status :: nat
  success :: bool
  data :: "'a option"
  error_text :: "jsstring option"

definition failure :: "nat \<Rightarrow> jsstring \<Rightarrow> 'a response" where
  "failure st m = \<lparr>status = st, success = False, data = None, error_text = Some m\<rparr>"

definition succeed :: "'a \<Rightarrow> 'a response" where
  "succeed x = \<lparr>status = 200, success = True, data = Some x, error_text = None\<rparr>"

text \<open>The messages of the handler: "bad input", "AI service is not configured",
  "request data is malformed", "AI authentication failed, contact the administrator",
  "AI usage exceeded, retry later", "request timed out", "network connection failed",
  "error during AI processing", "error while creating the task".\<close>

definition msg_bad_input :: jsstring where
  "msg_bad_input = [51096, 47803, 46108, 32, 51077, 47141, 51077, 45768, 45796, 46]"

definition msg_not_configured :: jsstring where
  "msg_not_configured = [65, 73, 32, 49436, 48708, 49828, 32, 49444, 51221, 51060, 32, 50756,
     47308, 46104, 51648, 32, 50506, 50520, 49845, 45768, 45796, 46]"

definition msg_bad_request_format :: jsstring where
  "msg_bad_request_format = [50836, 52397, 32, 45936, 51060, 53552, 32, 54805, 49885, 51060,
     32, 50732, 48148, 47476, 51648, 32, 50506, 49845, 45768, 45796, 46]"

definition msg_auth_failed_admin :: jsstring where
  "msg_auth_failed_admin = [65, 73, 32, 49436, 48708, 49828, 32, 51064, 51613, 50640, 32,
     49892, 54056, 54664, 49845, 45768, 45796, 46, 32, 44288, 47532, 51088, 50640, 44172, 32,
     47928, 51032, 54644, 51452, 49464, 50836, 46]"

definition msg_quota_exceeded :: jsstring where
  "msg_quota_exceeded = [65, 73, 32, 49436, 48708, 49828, 32, 49324, 50857, 47049, 51012, 32,
     52488, 44284, 54664, 49845, 45768, 45796, 46, 32, 51104, 49884, 32, 54980, 32, 45796,
     49884, 32, 49884, 46020, 54644, 51452, 49464, 50836, 46]"

definition msg_timed_out :: jsstring where
  "msg_timed_out = [50836, 52397, 32, 49884, 44036, 51060, 32, 52488, 44284, 46104, 50632,
     49845, 45768, 45796, 46, 32, 45796, 49884, 32, 49884, 46020, 54644, 51452, 49464, 50836,
     46]"

definition msg_network_failed :: jsstring where
  "msg_network_failed = [45348, 53944, 50892, 53356, 32, 50672, 44208, 50640, 32, 49892,
     54056, 54664, 49845, 45768, 45796, 46, 32, 51064, 53552, 45367, 32, 50672, 44208, 51012,
     32, 54869, 51064, 54644, 51452, 49464, 50836, 46]"

definition msg_ai_processing_error :: jsstring where
  "msg_ai_processing_error = [65, 73, 32, 52376, 47532, 32, 51473, 32, 50724, 47448, 44032,
     32, 48156, 49373, 54664, 49845, 45768, 45796, 46, 32, 45796, 49884, 32, 49884, 46020,
     54644, 51452, 49464, 50836, 46]"

definition msg_generate_failed :: jsstring where
  "msg_generate_failed = [54624, 32, 51068, 32, 49373, 49457, 32, 51473, 32, 50724, 47448,
     44032, 32, 48156, 49373, 54664, 49845, 45768, 45796, 46, 32, 51104, 49884, 32, 54980, 32,
     45796, 49884, 32, 49884, 46020, 54644, 51452, 49464, 50836, 46]"

text \<open>The tests of the \<open>catch\<close> block, in source order.\<close>

definition is_json_error :: "js_error \<Rightarrow> bool" where
  "is_json_error e \<longleftrightarrow> name e = Some (ascii ''SyntaxError'') \<or> message_includes e ''JSON''"

definition is_auth_error :: "js_error \<Rightarrow> bool" where
  "is_auth_error e \<longleftrightarrow> message_includes e ''API key'' \<or> message_includes e ''authentication''"

definition is_quota_error :: "js_error \<Rightarrow> bool" where
  "is_quota_error e \<longleftrightarrow>
     message_includes e ''quota'' \<or> message_includes e ''rate limit'' \<or>
     message_includes e ''429''"

definition is_timeout_error :: "js_error \<Rightarrow> bool" where
  "is_timeout_error e \<longleftrightarrow>
     message_includes e ''timeout'' \<or> code e = Some (ascii ''ETIMEDOUT'')"

definition is_network_error :: "js_error \<Rightarrow> bool" where
  "is_network_error e \<longleftrightarrow>
     code e = Some (ascii ''ECONNREFUSED'') \<or> code e = Some (ascii ''ENOTFOUND'')"

definition is_model_error :: "js_error \<Rightarrow> bool" where
  "is_model_error e \<longleftrightarrow> message_includes e ''model'' \<or> message_includes e ''gemini''"

definition catch_generate :: "js_error \<Rightarrow> generated_todo response" where
  "catch_generate e =
     (if is_json_error e then failure 400 msg_bad_request_format
      else if is_auth_error e then failure 401 msg_auth_failed_admin
      else if is_quota_error e then failure 429 msg_quota_exceeded
      else if is_timeout_error e then failure 504 msg_timed_out
      else if is_network_error e then failure 503 msg_network_failed
      else if is_model_error e then failure 500 msg_ai_processing_error
      else failure 500 msg_generate_failed)"

text \<open>
  The Gateway (\<open>generateObject\<close>) is an effectful collaborator: called with a prompt in
  a state \<open>'g\<close> of its own (what a test double records), it returns an object or
  throws, and leaves a new state. Of the prompt text the model keeps the two values
  that vary with the request: the processed input and the current date.
\<close>

type_synonym ('p, 'r, 'g) gateway = "'p \<Rightarrow> 'g \<Rightarrow> (js_error + 'r) \<times> 'g"

text \<open>
  \<open>POST\<close> of generate-todo. \<open>request\<close> is what \<open>await request.json()\<close> and the
  destructuring of \<open>prompt\<close> give: the value of \<open>body.prompt\<close>, or the error they
  throw. \<open>apiKey\<close> is the environment variable, \<open>currentDate\<close> the UTC+9 calendar
  date of the clock as \<open>YYYY-MM-DD\<close>. The result is the response and the Gateway's
  state after the request.
\<close>

definition POST_generate ::
  "(jsstring \<Rightarrow> date) \<Rightarrow> int \<Rightarrow> jsstring option \<Rightarrow> jsstring \<Rightarrow>
   (jsstring \<times> jsstring, generated_todo, 'g) gateway \<Rightarrow>
   js_error + prompt_value \<Rightarrow> 'g \<Rightarrow> generated_todo response \<times> 'g" where
  "POST_generate parse tz apiKey currentDate generateObject request g =
     (case request of
        Inl e \<Rightarrow> (catch_generate e, g)
      | Inr prompt \<Rightarrow>
          let validation = validateInput prompt in
          if \<not> valid validation then
            (failure 400 (case error validation of
                            None \<Rightarrow> msg_bad_input
                          | Some m \<Rightarrow> if m = [] then msg_bad_input else m), g)
          else
            (case prompt of
               Str text \<Rightarrow>
                 let processedPrompt = preprocessInput text in
                 if \<not> truthy apiKey then (failure 500 msg_not_configured, g)
                 else
                   (case generateObject (processedPrompt, currentDate) g of
                      (Inl e, g') \<Rightarrow> (catch_generate e, g')
                    | (Inr object, g') \<Rightarrow>
                        (succeed (postprocessTodo parse tz object currentDate), g'))
             | _ \<Rightarrow>
                 (catch_generate \<lparr>name = Some (ascii ''TypeError''),
                                  message = Some (ascii ''text.trim is not a function''),
                                  code = None\<rparr>, g)))"


section \<open>Todos and the week window (summary component)\<close>

record todo =
  todo_id :: jsstring
  todo_title :: jsstring
  todo_description :: "jsstring option"
  todo_created_date :: jsstring
  todo_due_date :: "jsstring option"
  todo_priority :: jsstring
  todo_category :: "jsstring list"
  todo_completed :: bool

text \<open>\<open>monday\<close> and \<open>sunday\<close> of \<open>getWeekTodos\<close>, from the clock reading \<open>now\<close>.\<close>

definition mondayOffset :: "int \<Rightarrow> int" where
  "mondayOffset currentDay = (if currentDay = 0 then - 6 else 1 - currentDay)"

definition week_monday :: "int \<Rightarrow> int \<Rightarrow> int" where
  "week_monday tz now =
     (let today = now;
          currentDay = getDay tz today;
          monday = setDate_rel today (mondayOffset currentDay)
      in setHours tz monday 0 0 0 0)"

definition week_sunday :: "int \<Rightarrow> int \<Rightarrow> int" where
  "week_sunday tz now =
     (let monday = week_monday tz now;
          sunday = setDate_rel monday 6
      in setHours tz sunday 23 59 59 999)"

text \<open>\<open>s ? new Date(s) : null\<close> followed by \<open>d && d >= monday && d <= sunday\<close>.\<close>

definition in_week :: "(jsstring \<Rightarrow> date) \<Rightarrow> int \<Rightarrow> int \<Rightarrow> jsstring option \<Rightarrow> bool" where
  "in_week parse monday sunday s =
     (if truthy s then
        (let d = parse (the s) in date_ge d (Some monday) \<and> date_le d (Some sunday))
      else False)"

definition getWeekTodos :: "(jsstring \<Rightarrow> date) \<Rightarrow> int \<Rightarrow> int \<Rightarrow> todo list \<Rightarrow> todo list" where
  "getWeekTodos parse tz now todos =
     (let monday = week_monday tz now;
          sunday = week_sunday tz now
      in filter (\<lambda>todo.
           let isCreatedThisWeek = in_week parse monday sunday (Some (todo_created_date todo));
               isDueThisWeek = in_week parse monday sunday (todo_due_date todo)
           in isCreatedThisWeek \<or> isDueThisWeek) todos)"

section \<open>Numbers\<close>

text \<open>
  A JavaScript number is an IEEE 754 double. The values that occur here are finite and
  in the normal range, so a number is the rational it denotes, and every arithmetic
  operation returns the double nearest to the exact result, ties to the even
  significand (53 bits).
\<close>

text \<open>The number of binary digits of a positive integer.\<close>

function bit_length :: "int \<Rightarrow> int" where
  "bit_length n = (if n \<le> 0 then 0 else 1 + bit_length (n div 2))"
  by pat_completeness auto
termination
  by (relation "measure nat") auto

declare bit_length.simps [simp del]

definition pow2 :: "int \<Rightarrow> rat" where
  "pow2 e = (if 0 \<le> e then 2 ^ nat e else 1 / 2 ^ nat (- e))"

text \<open>The binary exponent of a positive rational: \<open>pow2 e \<le> x < pow2 (e + 1)\<close>.\<close>

definition binade :: "rat \<Rightarrow> int" where
  "binade x = (if 1 \<le> x then bit_length \<lfloor>x\<rfloor> - 1 else - bit_length (\<lceil>1 / x\<rceil> - 1))"

definition round_half_even :: "rat \<Rightarrow> int" where
  "round_half_even r =
     (let f = \<lfloor>r\<rfloor>; d = r - of_int f
      in if d < 1 / 2 then f
         else if 1 / 2 < d then f + 1
         else if even f then f else f + 1)"

definition fl :: "rat \<Rightarrow> rat" where
  "fl x =
     (if x = 0 then 0
      else let q = pow2 (binade \<bar>x\<bar> - 52)
           in sgn x * of_int (round_half_even (\<bar>x\<bar> / q)) * q)"

definition js_div :: "rat \<Rightarrow> rat \<Rightarrow> rat" where
  "js_div a b = fl (a / b)"

definition js_mul :: "rat \<Rightarrow> rat \<Rightarrow> rat" where
  "js_mul a b = fl (a * b)"

text \<open>\<open>Math.round\<close>: the nearest integer, a tie going up.\<close>

definition Math_round :: "rat \<Rightarrow> int" where
  "Math_round x = \<lfloor>x + 1 / 2\<rfloor>"

section \<open>Statistics of the summary component\<close>

record stats =
  total :: nat
  completed :: nat
  incomplete :: nat
  completionRate :: int
  highPriority :: "todo list"
  mediumPriority :: "todo list"
  lowPriority :: "todo list"
  urgent :: "todo list"

definition getStats :: "(jsstring \<Rightarrow> date) \<Rightarrow> int \<Rightarrow> int \<Rightarrow> todo list \<Rightarrow> stats" where
  "getStats parse tz now targetTodos =
     (let total = length targetTodos;
          completed = length (filter todo_completed targetTodos);
          incomplete = filter (\<lambda>t. \<not> todo_completed t) targetTodos;
          completionRate =
            (if total > 0
             then Math_round (js_mul (js_div (of_nat completed) (of_nat total)) 100)
             else 0);
          today = setHours tz now 0 0 0 0
      in \<lparr>total = total,
          completed = completed,
          incomplete = length incomplete,
          completionRate = completionRate,
          highPriority = filter (\<lambda>t. todo_priority t = ascii ''high'') incomplete,
          mediumPriority = filter (\<lambda>t. todo_priority t = ascii ''medium'') incomplete,
          lowPriority = filter (\<lambda>t. todo_priority t = ascii ''low'') incomplete,
          urgent = filter (\<lambda>t.
            if \<not> truthy (todo_due_date t) then False
            else let dueDate = parse (the (todo_due_date t));
                     dueDate = map_option (\<lambda>d. setHours tz d 0 0 0 0) dueDate
                 in date_le dueDate (Some today)) incomplete\<rparr>)"


section \<open>The analyze-todos handler\<close>

text \<open>The value of \<open>body.todos\<close>: an array of todos, or anything else
  (\<open>!todos || !Array.isArray(todos)\<close>). \<open>body.period\<close> is a string or missing.\<close>

datatype todos_value = NotAnArray | TodoArray "todo list"

record analyze_body =
  todos :: todos_value
  period :: "jsstring option"

record todo_analysis =
  summary :: jsstring
  urgentTasks :: "jsstring list"
  insights :: "jsstring list"
  recommendations :: "jsstring list"

text \<open>The messages and the canned texts of the handler: "a valid todo list is
  required", "the period must be 'today' or 'week'", "no todos registered today",
  "no todos registered this week", "you have not added a todo yet", "add a new todo!",
  "add todos to manage them systematically", "the AI generation makes creating todos
  easier", "AI authentication failed", "error while analysing the todos".\<close>

definition msg_todos_required :: jsstring where
  "msg_todos_required = [50976, 54952, 54620, 32, 54624, 32, 51068, 32, 47785, 47197, 51060,
     32, 54596, 50836, 54633, 45768, 45796, 46]"

definition msg_bad_period :: jsstring where
  "msg_bad_period = [48516, 49437, 32, 44592, 44036, 51008, 32, 39, 116, 111, 100, 97, 121,
     39, 32, 46608, 45716, 32, 39, 119, 101, 101, 107, 39, 51060, 50612, 50556, 32, 54633,
     45768, 45796, 46]"

definition summary_today_empty :: jsstring where
  "summary_today_empty = [50724, 45720, 32, 46321, 47197, 46108, 32, 54624, 32, 51068, 51060,
     32, 50630, 49845, 45768, 45796, 46]"

definition summary_week_empty :: jsstring where
  "summary_week_empty = [51060, 48264, 32, 51452, 32, 46321, 47197, 46108, 32, 54624, 32,
     51068, 51060, 32, 50630, 49845, 45768, 45796, 46]"

definition insight_none_yet :: jsstring where
  "insight_none_yet = [50500, 51649, 32, 54624, 32, 51068, 51012, 32, 52628, 44032, 54616,
     51648, 32, 50506, 51004, 49512, 45348, 50836, 46]"

definition insight_add_new :: jsstring where
  "insight_add_new = [49352, 47196, 50868, 32, 54624, 32, 51068, 51012, 32, 52628, 44032,
     54644, 48372, 49464, 50836, 33]"

definition recommend_add :: jsstring where
  "recommend_add = [54624, 32, 51068, 51012, 32, 52628, 44032, 54616, 50668, 32, 52404, 44228,
     51201, 51004, 47196, 32, 44288, 47532, 54644, 48372, 49464, 50836, 46]"

definition recommend_use_ai :: jsstring where
  "recommend_use_ai = [65, 73, 32, 49373, 49457, 32, 44592, 45733, 51012, 32, 54876, 50857,
     54616, 47732, 32, 45908, 32, 49789, 44172, 32, 54624, 32, 51068, 51012, 32, 47564, 46308,
     32, 49688, 32, 51080, 49845, 45768, 45796, 46]"

definition msg_auth_failed :: jsstring where
  "msg_auth_failed = [65, 73, 32, 49436, 48708, 49828, 32, 51064, 51613, 50640, 32, 49892,
     54056, 54664, 49845, 45768, 45796, 46]"

definition msg_analyze_failed :: jsstring where
  "msg_analyze_failed = [54624, 32, 51068, 32, 48516, 49437, 32, 51473, 32, 50724, 47448,
     44032, 32, 48156, 49373, 54664, 49845, 45768, 45796, 46, 32, 45796, 49884, 32, 49884,
     46020, 54644, 51452, 49464, 50836, 46]"

definition canned_analysis :: "jsstring \<Rightarrow> todo_analysis" where
  "canned_analysis p =
     \<lparr>summary = (if p = ascii ''today'' then summary_today_empty else summary_week_empty),
      urgentTasks = [],
      insights = [insight_none_yet, insight_add_new],
      recommendations = [recommend_add, recommend_use_ai]\<rparr>"

subsection \<open>Due-date statistics\<close>

text \<open>\<open>currentDate\<close> is the UTC+9 calendar date of the clock, as \<open>YYYY-MM-DD\<close>.\<close>

definition overdueTodos :: "(jsstring \<Rightarrow> date) \<Rightarrow> jsstring \<Rightarrow> todo list \<Rightarrow> todo list" where
  "overdueTodos parse currentDate ts =
     filter (\<lambda>t.
       if \<not> truthy (todo_due_date t) \<or> todo_completed t then False
       else date_lt (parse (the (todo_due_date t))) (parse currentDate)) ts"

definition overdueCount :: "(jsstring \<Rightarrow> date) \<Rightarrow> jsstring \<Rightarrow> todo list \<Rightarrow> nat" where
  "overdueCount parse currentDate ts = length (overdueTodos parse currentDate ts)"

definition dueTodayCount :: "jsstring \<Rightarrow> todo list \<Rightarrow> nat" where
  "dueTodayCount currentDate ts =
     length (filter (\<lambda>t.
       if \<not> truthy (todo_due_date t) \<or> todo_completed t then False
       else split_T_0 (the (todo_due_date t)) = currentDate) ts)"

text \<open>
  Of the prompt text the model keeps the request's period and todos, the current date
  and the counts interpolated into it that are integers.
\<close>

record analysis_prompt =
  prompt_period :: jsstring
  prompt_currentDate :: jsstring
  prompt_todos :: "todo list"
  prompt_totalTodos :: nat
  prompt_completedTodos :: nat
  prompt_incompleteTodos :: nat
  prompt_todosWithDueDate :: nat
  prompt_overdueCount :: nat
  prompt_dueTodayCount :: nat

definition build_analysis_prompt ::
  "(jsstring \<Rightarrow> date) \<Rightarrow> jsstring \<Rightarrow> jsstring \<Rightarrow> todo list \<Rightarrow> analysis_prompt" where
  "build_analysis_prompt parse currentDate p ts =
     (let totalTodos = length ts;
          completedTodos = length (filter todo_completed ts);
          incompleteTodos = totalTodos - completedTodos
      in \<lparr>prompt_period = p,
          prompt_currentDate = currentDate,
          prompt_todos = ts,
          prompt_totalTodos = totalTodos,
          prompt_completedTodos = completedTodos,
          prompt_incompleteTodos = incompleteTodos,
          prompt_todosWithDueDate = length (filter (\<lambda>t. truthy (todo_due_date t)) ts),
          prompt_overdueCount = overdueCount parse currentDate ts,
          prompt_dueTodayCount = dueTodayCount currentDate ts\<rparr>)"

definition catch_analyze :: "js_error \<Rightarrow> todo_analysis response" where
  "catch_analyze e =
     (if is_auth_error e then failure 401 msg_auth_failed
      else if is_quota_error e then failure 429 msg_quota_exceeded
      else failure 500 msg_analyze_failed)"

text \<open>
  \<open>POST\<close> of analyze-todos. \<open>request\<close> is the parsed body, or the error that
  \<open>await request.json()\<close> or the destructuring throws.
\<close>

definition POST_analyze ::
  "(jsstring \<Rightarrow> date) \<Rightarrow> jsstring option \<Rightarrow> jsstring \<Rightarrow>
   (analysis_prompt, todo_analysis, 'g) gateway \<Rightarrow>
   js_error + analyze_body \<Rightarrow> 'g \<Rightarrow> todo_analysis response \<times> 'g" where
  "POST_analyze parse apiKey currentDate generateObject request g =
     (case request of
        Inl e \<Rightarrow> (catch_analyze e, g)
      | Inr body \<Rightarrow>
          (case todos body of
             NotAnArray \<Rightarrow> (failure 400 msg_todos_required, g)
           | TodoArray ts \<Rightarrow>
               if \<not> truthy (period body) \<or>
                  the (period body) \<notin> set [ascii ''today'', ascii ''week'']
               then (failure 400 msg_bad_period, g)
               else if length ts = 0 then (succeed (canned_analysis (the (period body))), g)
               else if \<not> truthy apiKey then (failure 500 msg_not_configured, g)
               else
                 (case generateObject
                         (build_analysis_prompt parse currentDate (the (period body)) ts) g of
                    (Inl e, g') \<Rightarrow> (catch_analyze e, g')
                  | (Inr object, g') \<Rightarrow> (succeed object, g'))))"

section \<open>Sample data\<close>

text \<open>A todo for the closed computations below: low priority, no category, with
  the given creation date, due date and completion flag.\<close>

definition sample_todo :: "jsstring \<Rightarrow> jsstring option \<Rightarrow> bool \<Rightarrow> todo" where
  "sample_todo created due done =
     \<lparr>todo_id = ascii ''1'', todo_title = ascii ''ab'', todo_description = None,
      todo_created_date = created, todo_due_date = due,
      todo_priority = ascii ''low'', todo_category = [], todo_completed = done\<rparr>"

definition created_2025_12_01 :: jsstring where
  "created_2025_12_01 = ascii ''2025-12-01T00:00:00.000Z''"

section \<open>Verification\<close>


subsection \<open>Whitespace runs and trimming\<close>

lemma ascii_space: "ascii '' '' = [32]"
  by (simp add: ascii_def)

lemma ascii_lf: "ascii [CHR 0x0A] = [10]"
  by (simp add: ascii_def)

lemma is_whitespace_32: "is_whitespace 32"
  by (simp add: is_whitespace_def)

lemma replace_runs_id: "\<forall>c\<in>set s. \<not> P c \<Longrightarrow> replace_runs P r s = s"
  by (induction s) auto

lemma set_replace_runs: "set (replace_runs P r s) \<subseteq> set r \<union> {c \<in> set s. \<not> P c}"
proof (induction P r s rule: replace_runs.induct)
  case (1 P r)
  then show ?case by simp
next
  case (2 P r c cs)
  show ?case
  proof (cases "P c")
    case True
    have "set (dropWhile P cs) \<subseteq> set cs"
      by (rule set_dropWhileD[THEN subsetI])
    with 2(1)[OF True] True show ?thesis by auto
  next
    case False
    with 2(2)[OF False] show ?thesis by auto
  qed
qed

lemma replace_runs_not_head:
  "s \<noteq> [] \<Longrightarrow> \<not> P (hd s) \<Longrightarrow> replace_runs P r s = hd s # replace_runs P r (tl s)"
  by (cases s) auto

lemma dropWhile_head: "dropWhile P s = [] \<or> \<not> P (hd (dropWhile P s))"
  by (metis hd_dropWhile)

lemma dropWhile_replace_runs:
  "s = [] \<or> \<not> P (hd s) \<Longrightarrow> dropWhile P (replace_runs P r s) = replace_runs P r s"
  by (cases s) auto

lemma replace_runs_idem:
  "r = [x] \<Longrightarrow> P x \<Longrightarrow> replace_runs P r (replace_runs P r s) = replace_runs P r s"
proof (induction P r s rule: replace_runs.induct)
  case (1 P r)
  then show ?case by simp
next
  case (2 P r c cs)
  show ?case
  proof (cases "P c")
    case True
    have "dropWhile P (replace_runs P r (dropWhile P cs)) = replace_runs P r (dropWhile P cs)"
      by (rule dropWhile_replace_runs) (rule dropWhile_head)
    with 2(1)[OF True 2(3) 2(4)] True 2(3) 2(4) show ?thesis by simp
  next
    case False
    with 2(2)[OF False 2(3) 2(4)] show ?thesis by simp
  qed
qed

lemma replace_runs_last:
  "s \<noteq> [] \<Longrightarrow> \<not> P (last s) \<Longrightarrow>
   replace_runs P r s \<noteq> [] \<and> last (replace_runs P r s) = last s"
proof (induction P r s rule: replace_runs.induct)
  case (1 P r)
  then show ?case by simp
next
  case (2 P r c cs)
  show ?case
  proof (cases "P c")
    case True
    with 2(3,4) have ne: "dropWhile P cs \<noteq> []"
      by (cases cs) (auto simp: dropWhile_eq_Nil_conv split: if_splits)
    have cs: "cs \<noteq> []" using ne by auto
    have "last (dropWhile P cs) = last cs"
      using ne by (metis last_appendR takeWhile_dropWhile_id)
    with 2(1)[OF True ne] 2(4) cs True show ?thesis by simp
  next
    case False
    show ?thesis
    proof (cases "cs = []")
      case True
      with False show ?thesis by simp
    next
      case ne: False
      with 2(2)[OF False ne] 2(4) False show ?thesis by simp
    qed
  qed
qed

lemma trim_fixed:
  "s = [] \<or> (\<not> is_whitespace (hd s) \<and> \<not> is_whitespace (last s)) \<Longrightarrow> trim s = s"
  unfolding trim_def
  by (cases s) (auto simp: last_rev hd_rev dropWhile_eq_self_iff rev_swap split: if_splits)

lemma trim_shape:
  "trim s = [] \<or> (\<not> is_whitespace (hd (trim s)) \<and> \<not> is_whitespace (last (trim s)))"
proof (cases "trim s = []")
  case True
  then show ?thesis by simp
next
  case False
  let ?d = "dropWhile is_whitespace s"
  let ?e = "dropWhile is_whitespace (rev ?d)"
  have e: "?e \<noteq> []" using False by (simp add: trim_def)
  have d: "?d \<noteq> []"
  proof
    assume "?d = []"
    then have "?e = []" by (simp only: rev.simps dropWhile.simps)
    with e show False by contradiction
  qed
  have l: "\<not> is_whitespace (last (trim s))"
    using e by (simp add: trim_def last_rev hd_dropWhile)
  have "hd (rev ?e) = hd ?d"
    using e d by (metis (no_types) last_rev rev_rev_ident last_appendR takeWhile_dropWhile_id)
  then have "\<not> is_whitespace (hd (trim s))"
    using d by (simp add: trim_def hd_dropWhile)
  with l show ?thesis by simp
qed


lemma collapse_no_newline:
  "\<not> is_newline c" if "c \<in> set (replace_runs is_whitespace [32] t)"
proof -
  from that set_replace_runs[of is_whitespace "[32]" t]
  have "c = 32 \<or> \<not> is_whitespace c" by auto
  then show ?thesis by (auto simp: is_newline_def is_whitespace_def)
qed

text \<open>The second replacement of \<open>preprocessInput\<close> never finds a newline: the first
  one has already turned every run of whitespace, newlines included, into a space.\<close>

lemma preprocessInput_collapse:
  "preprocessInput s = replace_runs is_whitespace [32] (trim s)"
  unfolding preprocessInput_def Let_def ascii_space ascii_lf
  by (rule replace_runs_id) (simp add: collapse_no_newline)

lemma collapse_trimmed_shape:
  assumes "t = [] \<or> (\<not> is_whitespace (hd t) \<and> \<not> is_whitespace (last t))"
  shows "trim (replace_runs is_whitespace [32] t) = replace_runs is_whitespace [32] t"
proof (cases "t = []")
  case True
  then show ?thesis by (simp add: trim_def)
next
  case False
  with assms have h: "\<not> is_whitespace (hd t)" and l: "\<not> is_whitespace (last t)" by auto
  let ?r = "replace_runs is_whitespace [32] t"
  from replace_runs_last[where s=t and P=is_whitespace and r="[32]", OF False l]
  have "?r \<noteq> []" "last ?r = last t" by auto
  moreover from replace_runs_not_head[where s=t and P=is_whitespace and r="[32]", OF False h]
  have "hd ?r = hd t" by simp
  ultimately show ?thesis using h l by (intro trim_fixed) simp
qed

subsection \<open>Input sanitizer\<close>

lemma valid_invalid [simp]: "\<not> valid (invalid m)"
  by (simp add: invalid_def)

lemma error_invalid [simp]: "error (invalid m) = Some m"
  by (simp add: invalid_def)



text \<open>
  C5. Normalization keeps a newline in the interior of the input. The code does not:
  \<open>"a\nb"\<close> is normalized to \<open>"a b"\<close>, because the replacement of \<open>\s+\<close> comes first and
  \<open>\s\<close> matches a newline.
\<close>

theorem preprocessInput_newline_lost:
  "preprocessInput (ascii ''a'' @ [10] @ ascii ''b'') = ascii ''a b''"
  by (simp add: preprocessInput_collapse trim_def ascii_def is_whitespace_def)

text \<open>
  C9. Normalization is idempotent: normalizing a normalized text changes nothing.
  This holds for every string, so for every valid input.
\<close>

theorem preprocessInput_idempotent:
  "preprocessInput (preprocessInput x) = preprocessInput x"
proof -
  let ?n = "replace_runs is_whitespace [32] (trim x)"
  have "trim ?n = ?n"
    by (rule collapse_trimmed_shape) (rule trim_shape)
  moreover have "replace_runs is_whitespace [32] ?n = ?n"
    by (rule replace_runs_idem[where r="[32]" and x=32 and P=is_whitespace,
          OF refl is_whitespace_32])
  ultimately show ?thesis by (simp add: preprocessInput_collapse)
qed

subsection \<open>Repair pass\<close>

lemma trim_Nil: "trim [] = []"
  by (simp add: trim_def)

lemma setHours_midnight_less:
  "setHours tz t 0 0 0 0 < setHours tz u 0 0 0 0 \<longleftrightarrow> localDay tz t < localDay tz u"
  by (simp add: setHours_def msPerDay_def)

lemma repair_due_date_cases:
  "repair_due_date parse tz today d =
     (case d of
        None \<Rightarrow> None
      | Some raw \<Rightarrow>
          if raw \<noteq> [] \<and> (\<exists>x y. parse raw = Some x \<and> parse today = Some y \<and>
                                localDay tz x < localDay tz y)
          then Some today else Some raw)"
  by (auto simp: repair_due_date_def Let_def date_lt_def setHours_midnight_less
      split: option.splits)

lemma localDay_midnight: "localDay tz (D * msPerDay) = D + tz div msPerDay"
  by (simp add: localDay_def msPerDay_def)

lemma localDay_bounds:
  "localDay tz t * msPerDay \<le> t + tz \<and> t + tz < localDay tz t * msPerDay + msPerDay"
proof -
  have "(t + tz) = localDay tz t * msPerDay + (t + tz) mod msPerDay"
    by (simp add: localDay_def)
  moreover have "0 \<le> (t + tz) mod msPerDay" "(t + tz) mod msPerDay < msPerDay"
    by (simp_all add: msPerDay_def)
  ultimately show ?thesis by linarith
qed

lemma le_localDay_iff: "D \<le> localDay tz t \<longleftrightarrow> D * msPerDay \<le> t + tz"
proof
  assume "D \<le> localDay tz t"
  then have "D * msPerDay \<le> localDay tz t * msPerDay"
    by (simp add: msPerDay_def)
  with localDay_bounds[of tz t] show "D * msPerDay \<le> t + tz" by linarith
next
  assume "D * msPerDay \<le> t + tz"
  with localDay_bounds[of tz t] have "D * msPerDay < (localDay tz t + 1) * msPerDay"
    by (simp add: algebra_simps)
  then have "D < localDay tz t + 1" by (simp add: msPerDay_def)
  then show "D \<le> localDay tz t" by simp
qed

lemma civil_day_localDay: "civil_day x = localDay 32400000 x"
  by (simp add: civil_day_def localDay_def)

lemma civil_day_midnight: "civil_day (D * msPerDay) = D"
  by (simp add: civil_day_def msPerDay_def)

text \<open>On a host between UTC and UTC+9, the test of the repair pass against a date-only
  resolution date for day D.\<close>

lemma host_day_less_iff:
  assumes "0 \<le> tz" "tz \<le> 32400000"
  shows "localDay tz x < localDay tz (D * msPerDay) \<longleftrightarrow> x + tz < D * msPerDay"
proof -
  have "tz div msPerDay = 0" using assms by (simp add: msPerDay_def)
  then have "localDay tz (D * msPerDay) = D" by (simp add: localDay_midnight)
  moreover have "localDay tz x < D \<longleftrightarrow> x + tz < D * msPerDay"
    using le_localDay_iff[of D tz x] by linarith
  ultimately show ?thesis by simp
qed

lemma civil_day_less_iff: "civil_day x < D \<longleftrightarrow> x + 32400000 < D * msPerDay"
  using le_localDay_iff[of D 32400000 x] by (simp add: civil_day_localDay) linarith

lemma date_only_day_less_iff:
  "localDay tz (E * msPerDay) < localDay tz (D * msPerDay) \<longleftrightarrow> E < D"
  by (simp add: localDay_midnight)


lemma repair_title_length: "2 \<le> length (repair_title t) \<and> length (repair_title t) \<le> 100"
  by (auto simp: repair_title_def fallback_title_def Let_def ascii_def split: option.splits)

lemma repair_priority_valid:
  "repair_priority p \<in> {ascii ''low'', ascii ''medium'', ascii ''high''}"
  by (auto simp: repair_priority_def split: option.splits)

lemma repair_category_nonempty: "repair_category c \<noteq> []"
  by (auto simp: repair_category_def split: option.splits)

lemma repair_due_time_matches:
  "repair_due_time t = Some r \<Longrightarrow> r \<noteq> [] \<Longrightarrow> timeRegex_test r"
  by (auto simp: repair_due_time_def timeRegex_test_def ascii_def split: option.splits if_splits)

lemma timeRegex_test_nonempty: "timeRegex_test t \<Longrightarrow> t \<noteq> []"
  by (auto simp: timeRegex_test_def)

text \<open>
  C1 (as amended). For every raw output and every resolution date \<open>today\<close>,
  \<open>postprocessTodo\<close> returns a record whose title has length 2 to 100 (a trimmed title
  longer than 100 is cut to its first 97 code units plus \<open>"..."\<close>, an absent title or
  one shorter than 2 after trimming becomes the fallback), whose priority is low,
  medium or high (medium by default) and whose category array is not empty (the
  default category otherwise). On a host whose local zone lies between UTC and UTC+9,
  a due date that is present and parses is not before \<open>today\<close> as civil dates (calendar
  days in UTC+9), a due date before \<open>today\<close> being replaced by \<open>today\<close>; for a date-only
  due date this holds on every host. A due time that is present and not the empty
  string matches \<open>HH:mm\<close> (one that does not match becomes \<open>"09:00"\<close>); an empty due
  time is returned unchanged. Values that are already valid are kept. The function is
  total on such records: every field it calls a method on is a string or an array.
  \<open>today\<close> is a date-only string for day \<open>D\<close>, and \<open>new Date("")\<close> is an Invalid Date.
\<close>

theorem postprocessTodo_repairs:
  assumes "parse [] = None"
  shows "let r = postprocessTodo parse tz todo today in
     (\<exists>t. title r = Some t \<and> 2 \<le> length t \<and> length t \<le> 100) \<and>
     (\<forall>raw. title todo = Some raw \<and> 100 < length (trim raw) \<longrightarrow>
        title r = Some (take 97 (trim raw) @ ascii ''...'')) \<and>
     (title todo = None \<or> (\<exists>raw. title todo = Some raw \<and> length (trim raw) < 2) \<longrightarrow>
        title r = Some fallback_title) \<and>
     (\<forall>raw. title todo = Some raw \<and> 2 \<le> length (trim raw) \<and> length (trim raw) \<le> 100 \<longrightarrow>
        title r = Some (trim raw)) \<and>
     (\<exists>p. priority r = Some p \<and> p \<in> {ascii ''low'', ascii ''medium'', ascii ''high''}) \<and>
     (priority todo \<notin> {Some (ascii ''low''), Some (ascii ''medium''), Some (ascii ''high'')} \<longrightarrow>
        priority r = Some (ascii ''medium'')) \<and>
     (priority todo \<in> {Some (ascii ''low''), Some (ascii ''medium''), Some (ascii ''high'')} \<longrightarrow>
        priority r = priority todo) \<and>
     (\<exists>cs. category r = Some cs \<and> 1 \<le> length cs) \<and>
     (category todo = None \<or> category todo = Some [] \<longrightarrow> category r = Some [default_category]) \<and>
     (\<forall>cs. category todo = Some cs \<and> cs \<noteq> [] \<longrightarrow> category r = Some cs) \<and>
     (due_date r = None \<longleftrightarrow> due_date todo = None) \<and>
     (\<forall>D d x. 0 \<le> tz \<and> tz \<le> 32400000 \<and> parse today = Some (D * msPerDay) \<and>
        due_date r = Some d \<and> parse d = Some x \<longrightarrow> D \<le> civil_day x) \<and>
     (\<forall>D d x. 0 \<le> tz \<and> tz \<le> 32400000 \<and> parse today = Some (D * msPerDay) \<and>
        due_date todo = Some d \<and> parse d = Some x \<and> civil_day x < D \<longrightarrow>
        due_date r = Some today) \<and>
     (\<forall>D E d. parse today = Some (D * msPerDay) \<and> due_date r = Some d \<and>
        parse d = Some (E * msPerDay) \<longrightarrow> D \<le> E) \<and>
     (\<forall>D E d. parse today = Some (D * msPerDay) \<and> due_date todo = Some d \<and>
        parse d = Some (E * msPerDay) \<and> E < D \<longrightarrow> due_date r = Some today) \<and>
     (\<forall>D E d. parse today = Some (D * msPerDay) \<and> due_date todo = Some d \<and>
        parse d = Some (E * msPerDay) \<and> D \<le> E \<longrightarrow> due_date r = Some d) \<and>
     (due_time r = None \<longleftrightarrow> due_time todo = None) \<and>
     (\<forall>t. due_time r = Some t \<and> t \<noteq> [] \<longrightarrow> timeRegex_test t) \<and>
     (\<forall>t. due_time todo = Some t \<and> t \<noteq> [] \<and> \<not> timeRegex_test t \<longrightarrow>
        due_time r = Some (ascii ''09:00'')) \<and>
     (\<forall>t. due_time todo = Some t \<and> timeRegex_test t \<longrightarrow> due_time r = Some t) \<and>
     (due_time todo = Some [] \<longrightarrow> due_time r = Some [])"
proof -
  let ?r = "postprocessTodo parse tz todo today"
  have title: "title ?r = Some (repair_title (title todo))"
    and prio: "priority ?r = Some (repair_priority (priority todo))"
    and cat: "category ?r = Some (repair_category (category todo))"
    and dd: "due_date ?r = repair_due_date parse tz today (due_date todo)"
    and dt: "due_time ?r = repair_due_time (due_time todo)"
    by (simp_all add: postprocessTodo_def)
  have t1: "\<exists>t. title ?r = Some t \<and> 2 \<le> length t \<and> length t \<le> 100"
    using repair_title_length by (simp add: title)
  have t2: "\<forall>raw. title todo = Some raw \<and> 100 < length (trim raw) \<longrightarrow>
        title ?r = Some (take 97 (trim raw) @ ascii ''...'')"
    by (auto simp: title repair_title_def Let_def trim_Nil ascii_def)
  have t3: "title todo = None \<or> (\<exists>raw. title todo = Some raw \<and> length (trim raw) < 2) \<longrightarrow>
        title ?r = Some fallback_title"
    by (auto simp: title repair_title_def Let_def)
  have t4: "\<forall>raw. title todo = Some raw \<and> 2 \<le> length (trim raw) \<and> length (trim raw) \<le> 100 \<longrightarrow>
        title ?r = Some (trim raw)"
    by (auto simp: title repair_title_def Let_def trim_Nil)
  have p1: "\<exists>p. priority ?r = Some p \<and> p \<in> {ascii ''low'', ascii ''medium'', ascii ''high''}"
    using repair_priority_valid by (simp add: prio)
  have p2: "priority todo \<notin> {Some (ascii ''low''), Some (ascii ''medium''), Some (ascii ''high'')} \<longrightarrow>
        priority ?r = Some (ascii ''medium'')"
    by (auto simp: prio repair_priority_def split: option.splits)
  have p3: "priority todo \<in> {Some (ascii ''low''), Some (ascii ''medium''), Some (ascii ''high'')} \<longrightarrow>
        priority ?r = priority todo"
    by (auto simp: prio repair_priority_def ascii_def split: option.splits)
  have c1: "\<exists>cs. category ?r = Some cs \<and> 1 \<le> length cs"
    using repair_category_nonempty[of "category todo"]
    by (simp add: cat Suc_le_eq)
  have c2: "category todo = None \<or> category todo = Some [] \<longrightarrow>
        category ?r = Some [default_category]"
    by (auto simp: cat repair_category_def)
  have c3: "\<forall>cs. category todo = Some cs \<and> cs \<noteq> [] \<longrightarrow> category ?r = Some cs"
    by (auto simp: cat repair_category_def)
  have d0: "due_date ?r = None \<longleftrightarrow> due_date todo = None"
    by (auto simp: dd repair_due_date_cases split: option.splits)
  have d1: "\<forall>D d x. 0 \<le> tz \<and> tz \<le> 32400000 \<and> parse today = Some (D * msPerDay) \<and>
        due_date ?r = Some d \<and> parse d = Some x \<longrightarrow> D \<le> civil_day x"
  proof (intro allI impI)
    fix D d x
    assume h: "0 \<le> tz \<and> tz \<le> 32400000 \<and> parse today = Some (D * msPerDay) \<and>
        due_date ?r = Some d \<and> parse d = Some x"
    then have tz: "0 \<le> tz" "tz \<le> 32400000" and td: "parse today = Some (D * msPerDay)"
      and r: "repair_due_date parse tz today (due_date todo) = Some d" and x: "parse d = Some x"
      by (simp_all add: dd)
    show "D \<le> civil_day x"
    proof (cases "d = today")
      case True
      with td x have "x = D * msPerDay" by simp
      then show ?thesis by (simp add: civil_day_midnight)
    next
      case False
      with r have "due_date todo = Some d"
        and n: "\<not> (d \<noteq> [] \<and> (\<exists>x y. parse d = Some x \<and> parse today = Some y \<and>
                  localDay tz x < localDay tz y))"
        by (auto simp: repair_due_date_cases split: option.splits if_splits)
      moreover have "d \<noteq> []" using x assms by auto
      ultimately have "\<not> localDay tz x < localDay tz (D * msPerDay)"
        using x td by auto
      then have "D * msPerDay \<le> x + tz"
        by (simp add: host_day_less_iff[OF tz])
      with tz(2) have "\<not> x + 32400000 < D * msPerDay" by linarith
      then show ?thesis by (simp add: civil_day_less_iff[symmetric])
    qed
  qed
  have d2: "\<forall>D d x. 0 \<le> tz \<and> tz \<le> 32400000 \<and> parse today = Some (D * msPerDay) \<and>
        due_date todo = Some d \<and> parse d = Some x \<and> civil_day x < D \<longrightarrow>
        due_date ?r = Some today"
  proof (intro allI impI)
    fix D d x
    assume h: "0 \<le> tz \<and> tz \<le> 32400000 \<and> parse today = Some (D * msPerDay) \<and>
        due_date todo = Some d \<and> parse d = Some x \<and> civil_day x < D"
    then have tz: "0 \<le> tz" "tz \<le> 32400000" and td: "parse today = Some (D * msPerDay)"
      and d: "due_date todo = Some d" and x: "parse d = Some x" and lt: "civil_day x < D"
      by simp_all
    have ne: "d \<noteq> []" using x assms by auto
    from lt have "x + 32400000 < D * msPerDay" by (simp add: civil_day_less_iff)
    with tz(2) have "x + tz < D * msPerDay" by linarith
    then have "localDay tz x < localDay tz (D * msPerDay)"
      by (simp add: host_day_less_iff[OF tz])
    with ne x td d show "due_date ?r = Some today"
      by (simp add: dd repair_due_date_cases)
  qed
  have d3: "\<forall>D E d. parse today = Some (D * msPerDay) \<and> due_date ?r = Some d \<and>
        parse d = Some (E * msPerDay) \<longrightarrow> D \<le> E"
  proof (intro allI impI)
    fix D E d
    assume h: "parse today = Some (D * msPerDay) \<and> due_date ?r = Some d \<and>
        parse d = Some (E * msPerDay)"
    then have td: "parse today = Some (D * msPerDay)"
      and r: "repair_due_date parse tz today (due_date todo) = Some d"
      and x: "parse d = Some (E * msPerDay)"
      by (simp_all add: dd)
    show "D \<le> E"
    proof (cases "d = today")
      case True
      with td x have "Some (E * msPerDay) = Some (D * msPerDay)" by (simp only:)
      then show ?thesis by (simp add: msPerDay_def)
    next
      case False
      with r have n: "\<not> (d \<noteq> [] \<and> (\<exists>x y. parse d = Some x \<and> parse today = Some y \<and>
                  localDay tz x < localDay tz y))"
        by (auto simp: repair_due_date_cases split: option.splits if_splits)
      moreover have "d \<noteq> []" using x assms by auto
      ultimately have "\<not> localDay tz (E * msPerDay) < localDay tz (D * msPerDay)"
        using x td by auto
      then show ?thesis by (simp add: date_only_day_less_iff)
    qed
  qed
  have d4: "\<forall>D E d. parse today = Some (D * msPerDay) \<and> due_date todo = Some d \<and>
        parse d = Some (E * msPerDay) \<and> E < D \<longrightarrow> due_date ?r = Some today"
  proof (intro allI impI)
    fix D E d
    assume h: "parse today = Some (D * msPerDay) \<and> due_date todo = Some d \<and>
        parse d = Some (E * msPerDay) \<and> E < D"
    then have ne: "d \<noteq> []" using assms by auto
    from h have "localDay tz (E * msPerDay) < localDay tz (D * msPerDay)"
      by (simp add: date_only_day_less_iff)
    with ne h show "due_date ?r = Some today"
      by (simp add: dd repair_due_date_cases)
  qed
  have d5: "\<forall>D E d. parse today = Some (D * msPerDay) \<and> due_date todo = Some d \<and>
        parse d = Some (E * msPerDay) \<and> D \<le> E \<longrightarrow> due_date ?r = Some d"
  proof (intro allI impI)
    fix D E d
    assume h: "parse today = Some (D * msPerDay) \<and> due_date todo = Some d \<and>
        parse d = Some (E * msPerDay) \<and> D \<le> E"
    then have "\<not> localDay tz (E * msPerDay) < localDay tz (D * msPerDay)"
      by (simp add: date_only_day_less_iff)
    with h show "due_date ?r = Some d"
      by (simp add: dd repair_due_date_cases)
  qed
  have m0: "due_time ?r = None \<longleftrightarrow> due_time todo = None"
    by (auto simp: dt repair_due_time_def split: option.splits)
  have m1: "\<forall>t. due_time ?r = Some t \<and> t \<noteq> [] \<longrightarrow> timeRegex_test t"
    using repair_due_time_matches by (auto simp: dt)
  have m2: "\<forall>t. due_time todo = Some t \<and> t \<noteq> [] \<and> \<not> timeRegex_test t \<longrightarrow>
        due_time ?r = Some (ascii ''09:00'')"
    by (simp add: dt repair_due_time_def)
  have m3: "\<forall>t. due_time todo = Some t \<and> timeRegex_test t \<longrightarrow> due_time ?r = Some t"
    by (auto simp: dt repair_due_time_def)
  have m4: "due_time todo = Some [] \<longrightarrow> due_time ?r = Some []"
    by (simp add: dt repair_due_time_def)
  show ?thesis
    unfolding Let_def
    using t1 t2 t3 t4 p1 p2 p3 c1 c2 c3 d0 d1 d2 d3 d4 d5 m0 m1 m2 m3 m4
    by (intro conjI)
qed


theorem postprocessTodo_repairs_witness:
  "iso_parse 0 [] = None \<and>
   iso_parse 0 (ascii ''2026-01-04'') = Some (20457 * msPerDay) \<and>
   map_option civil_day (iso_parse 0 (ascii ''2026-01-03T14:00:00Z'')) = Some 20456 \<and>
   (let r = postprocessTodo (iso_parse 0) 0
        \<lparr>title = Some (replicate 101 97), description = None,
         due_date = Some (ascii ''2026-01-03T14:00:00Z''), due_time = Some (ascii ''25:99''),
         priority = Some (ascii ''urgent''), category = Some []\<rparr>
        (ascii ''2026-01-04'')
    in title r = Some (replicate 97 97 @ ascii ''...'') \<and>
       priority r = Some (ascii ''medium'') \<and>
       category r = Some [default_category] \<and>
       due_date r = Some (ascii ''2026-01-04'') \<and>
       due_time r = Some (ascii ''09:00''))"
proof -
  let ?todo = "\<lparr>title = Some (replicate 101 97), description = None,
         due_date = Some (ascii ''2026-01-03T14:00:00Z''), due_time = Some (ascii ''25:99''),
         priority = Some (ascii ''urgent''), category = Some []\<rparr>"
  have h0: "iso_parse 0 [] = None"
    by (simp add: iso_parse_def)
  have a1: "100 < length (trim (replicate 101 97))"
    "take 97 (trim (replicate 101 97)) = replicate 97 97"
    by (simp_all add: trim_def is_whitespace_def)
  have td: "iso_parse 0 (ascii ''2026-01-04'') = Some (20457 * msPerDay)"
    by code_simp
  have du: "iso_parse 0 (ascii ''2026-01-03T14:00:00Z'') = Some 1767448800000"
    by code_simp
  have cd: "civil_day 1767448800000 = 20456"
    by code_simp
  have a2: "(0::int) \<le> 0 \<and> (0::int) \<le> 32400000 \<and> civil_day 1767448800000 < 20457"
    by (simp add: cd)
  have a3: "ascii ''25:99'' \<noteq> []" "\<not> timeRegex_test (ascii ''25:99'')"
    by (simp_all add: ascii_def timeRegex_test_def)
  have a4: "Some (ascii ''urgent'') \<notin>
      {Some (ascii ''low''), Some (ascii ''medium''), Some (ascii ''high'')}"
    by (simp add: ascii_def)
  let ?R = "postprocessTodo (iso_parse 0) 0 ?todo (ascii ''2026-01-04'')"
  note T = postprocessTodo_repairs[where parse="iso_parse 0" and tz=0 and todo="?todo"
        and today="ascii ''2026-01-04''", OF h0, unfolded Let_def]
  from T have "\<forall>raw. title ?todo = Some raw \<and> 100 < length (trim raw) \<longrightarrow>
        title ?R = Some (take 97 (trim raw) @ ascii ''...'')"
    by (elim conjE)
  with a1 have r1: "title ?R = Some (replicate 97 97 @ ascii ''...'')"
    by simp
  from T have "priority ?todo \<notin>
        {Some (ascii ''low''), Some (ascii ''medium''), Some (ascii ''high'')} \<longrightarrow>
        priority ?R = Some (ascii ''medium'')"
    by (elim conjE)
  with a4 have r2: "priority ?R = Some (ascii ''medium'')"
    by simp
  from T have "category ?todo = None \<or> category ?todo = Some [] \<longrightarrow>
        category ?R = Some [default_category]"
    by (elim conjE)
  then have r3: "category ?R = Some [default_category]"
    by simp
  from T have "\<forall>D d x. (0::int) \<le> 0 \<and> (0::int) \<le> 32400000 \<and>
        iso_parse 0 (ascii ''2026-01-04'') = Some (D * msPerDay) \<and>
        due_date ?todo = Some d \<and> iso_parse 0 d = Some x \<and> civil_day x < D \<longrightarrow>
        due_date ?R = Some (ascii ''2026-01-04'')"
    by (elim conjE)
  from this[rule_format, of 20457 "ascii ''2026-01-03T14:00:00Z''" 1767448800000] a2 td du
  have r4: "due_date ?R = Some (ascii ''2026-01-04'')"
    by simp
  from T have "\<forall>t. due_time ?todo = Some t \<and> t \<noteq> [] \<and> \<not> timeRegex_test t \<longrightarrow>
        due_time ?R = Some (ascii ''09:00'')"
    by (elim conjE)
  with a3 have r5: "due_time ?R = Some (ascii ''09:00'')"
    by simp
  show ?thesis
    using h0 td du cd r1 r2 r3 r4 r5 by (simp add: Let_def)
qed

text \<open>
  The claim as stated fails twice. An empty string is a present due time: the guard
  \<open>if (processed.due_time)\<close> skips it and it is returned although it does not match the
  pattern. And on a host in UTC-8, with today = 2026-01-04, the due date
  2026-01-03T10:00:00Z, a day before today in UTC+9 (and in UTC and in UTC-8), is
  returned unchanged: \<open>new Date("2026-01-04")\<close> is the UTC midnight, which
  \<open>setHours(0, 0, 0, 0)\<close> moves back to the local midnight of 2026-01-03.
\<close>

theorem postprocessTodo_counterexample:
  "due_time (postprocessTodo (iso_parse 0) 0
      \<lparr>title = Some (ascii ''ab''), description = None, due_date = None, due_time = Some [],
       priority = Some (ascii ''low''), category = Some [default_category]\<rparr>
      (ascii ''2026-01-04'')) = Some [] \<and>
   \<not> timeRegex_test [] \<and>
   due_date (postprocessTodo (iso_parse (- 28800000)) (- 28800000)
      \<lparr>title = Some (ascii ''ab''), description = None,
       due_date = Some (ascii ''2026-01-03T10:00:00Z''), due_time = None,
       priority = Some (ascii ''low''), category = Some [default_category]\<rparr>
      (ascii ''2026-01-04'')) = Some (ascii ''2026-01-03T10:00:00Z'') \<and>
   map_option civil_day (iso_parse (- 28800000) (ascii ''2026-01-03T10:00:00Z'')) = Some 20456 \<and>
   iso_parse (- 28800000) (ascii ''2026-01-04'') = Some (20457 * msPerDay)"
proof -
  have a: "due_time (postprocessTodo (iso_parse 0) 0
      \<lparr>title = Some (ascii ''ab''), description = None, due_date = None, due_time = Some [],
       priority = Some (ascii ''low''), category = Some [default_category]\<rparr>
      (ascii ''2026-01-04'')) = Some [] \<and> \<not> timeRegex_test []"
    by (simp add: postprocessTodo_def repair_due_time_def timeRegex_test_def)
  have td: "iso_parse (- 28800000) (ascii ''2026-01-04'') = Some (20457 * msPerDay)"
    by code_simp
  have du: "iso_parse (- 28800000) (ascii ''2026-01-03T10:00:00Z'') = Some 1767434400000"
    by code_simp
  have cd: "civil_day 1767434400000 = 20456"
    by code_simp
  have ne: "ascii ''2026-01-03T10:00:00Z'' \<noteq> []"
    by (simp add: ascii_def)
  have ld: "\<not> localDay (- 28800000) 1767434400000 < localDay (- 28800000) (20457 * msPerDay)"
    by code_simp
  have b: "due_date (postprocessTodo (iso_parse (- 28800000)) (- 28800000)
      \<lparr>title = Some (ascii ''ab''), description = None,
       due_date = Some (ascii ''2026-01-03T10:00:00Z''), due_time = None,
       priority = Some (ascii ''low''), category = Some [default_category]\<rparr>
      (ascii ''2026-01-04'')) = Some (ascii ''2026-01-03T10:00:00Z'')"
    using ne ld by (simp add: postprocessTodo_def repair_due_date_cases td du)
  from a b td du cd show ?thesis by simp
qed


subsection \<open>The analyze-todos handler\<close>

lemma truthy_simps [simp]:
  "truthy None = False" "truthy (Some s) = (s \<noteq> [])"
  by (simp_all add: truthy_def)

lemma valid_period_cases:
  "p = ascii ''today'' \<or> p = ascii ''week'' \<Longrightarrow>
   p \<noteq> [] \<and> p \<in> set [ascii ''today'', ascii ''week'']"
  by (auto simp: ascii_def)

text \<open>
  C2. For a request whose \<open>todos\<close> is the empty array and whose period is \<open>"today"\<close> or
  \<open>"week"\<close>, the handler answers 200 with the canned analysis (the summary of the
  period, no urgent task, the two fixed insights, the two fixed recommendations) and
  does not call the Gateway: whatever the Gateway is, its state is returned untouched.
\<close>

theorem analyze_empty_list_canned:
  assumes "p = ascii ''today'' \<or> p = ascii ''week''"
  shows "POST_analyze parse apiKey currentDate generateObject
           (Inr \<lparr>todos = TodoArray [], period = Some p\<rparr>) g =
         (\<lparr>status = 200, success = True,
           data = Some \<lparr>summary = (if p = ascii ''today'' then summary_today_empty
                                    else summary_week_empty),
                        urgentTasks = [],
                        insights = [insight_none_yet, insight_add_new],
                        recommendations = [recommend_add, recommend_use_ai]\<rparr>,
           error_text = None\<rparr>, g)"
  using valid_period_cases[OF assms]
  by (simp add: POST_analyze_def succeed_def canned_analysis_def)

theorem analyze_empty_list_canned_witness:
  "(ascii ''week'' = ascii ''today'' \<or> ascii ''week'' = ascii ''week'') \<and>
   POST_analyze (iso_parse 0) (Some (ascii ''key'')) (ascii ''2026-01-04'')
     (\<lambda>p n. (Inl \<lparr>name = None, message = None, code = None\<rparr>, Suc n))
     (Inr \<lparr>todos = TodoArray [], period = Some (ascii ''week'')\<rparr>) (0::nat) =
   (\<lparr>status = 200, success = True,
     data = Some \<lparr>summary = summary_week_empty, urgentTasks = [],
                  insights = [insight_none_yet, insight_add_new],
                  recommendations = [recommend_add, recommend_use_ai]\<rparr>,
     error_text = None\<rparr>, 0)"
proof -
  have h: "ascii ''week'' = ascii ''today'' \<or> ascii ''week'' = ascii ''week''"
    by simp
  have n: "ascii ''week'' \<noteq> ascii ''today''"
    by (simp add: ascii_def)
  show ?thesis
    using analyze_empty_list_canned[OF h, of "iso_parse 0" "Some (ascii ''key'')"
        "ascii ''2026-01-04''"
        "\<lambda>p n. (Inl \<lparr>name = None, message = None, code = None\<rparr>, Suc n)" "0::nat"] n
    by simp
qed







subsection \<open>The generate-todo handler\<close>

lemma status_failure [simp]: "status (failure st m) = st"
  by (simp add: failure_def)

lemma catch_generate_status:
  "status (catch_generate e) =
     (if is_json_error e then 400
      else if is_auth_error e then 401
      else if is_quota_error e then 429
      else if is_timeout_error e then 504
      else if is_network_error e then 503
      else 500)"
  by (simp add: catch_generate_def)

text \<open>
  C3 (as amended). The failure kinds are the ones the handler tells apart, by the tests
  of its \<open>catch\<close> block. When the Gateway fails, the handler has called it exactly once
  (the Gateway state returned is the one after that call: no retry) and answers with the
  status of the first test that matches, in the order malformed JSON (400),
  authentication (401), quota (429), timeout (504), network (503), then 500. So each
  kind gets its documented status when no earlier test matches, and a failure that
  matches one of the four non-generic tests never gets 500.
\<close>

theorem generate_gateway_failure_status:
  assumes "valid (validateInput (Str text))"
    and "truthy apiKey"
    and "generateObject (preprocessInput text, currentDate) g = (Inl e, g')"
  shows "POST_generate parse tz apiKey currentDate generateObject (Inr (Str text)) g =
           (catch_generate e, g') \<and>
         (is_json_error e \<longrightarrow> status (catch_generate e) = 400) \<and>
         (\<not> is_json_error e \<and> is_auth_error e \<longrightarrow> status (catch_generate e) = 401) \<and>
         (\<not> is_json_error e \<and> \<not> is_auth_error e \<and> is_quota_error e \<longrightarrow>
            status (catch_generate e) = 429) \<and>
         (\<not> is_json_error e \<and> \<not> is_auth_error e \<and> \<not> is_quota_error e \<and>
          is_timeout_error e \<longrightarrow> status (catch_generate e) = 504) \<and>
         (\<not> is_json_error e \<and> \<not> is_auth_error e \<and> \<not> is_quota_error e \<and>
          \<not> is_timeout_error e \<and> is_network_error e \<longrightarrow> status (catch_generate e) = 503) \<and>
         (\<not> is_json_error e \<and> \<not> is_auth_error e \<and> \<not> is_quota_error e \<and>
          \<not> is_timeout_error e \<and> \<not> is_network_error e \<longrightarrow> status (catch_generate e) = 500) \<and>
         (is_auth_error e \<or> is_quota_error e \<or> is_timeout_error e \<or> is_network_error e \<longrightarrow>
            status (catch_generate e) \<in> {400, 401, 429, 504, 503})"
proof -
  have "POST_generate parse tz apiKey currentDate generateObject (Inr (Str text)) g =
           (catch_generate e, g')"
    using assms by (simp add: POST_generate_def Let_def del: validateInput.simps)
  then show ?thesis
    by (simp add: catch_generate_status)
qed


theorem generate_gateway_failure_status_witness:
  "valid (validateInput (Str (ascii ''buy milk''))) \<and>
   truthy (Some (ascii ''key'')) \<and>
   POST_generate (iso_parse 0) 0 (Some (ascii ''key'')) (ascii ''2026-01-04'')
     (\<lambda>p n. (Inl \<lparr>name = Some (ascii ''Error''),
                     message = Some (ascii ''getaddrinfo ENOTFOUND example.com''),
                     code = Some (ascii ''ENOTFOUND'')\<rparr>, Suc n))
     (Inr (Str (ascii ''buy milk''))) (0::nat) =
   (failure 503 msg_network_failed, 1)"
proof -
  let ?e = "\<lparr>name = Some (ascii ''Error''),
       message = Some (ascii ''getaddrinfo ENOTFOUND example.com''),
       code = Some (ascii ''ENOTFOUND'')\<rparr>"
  let ?gw = "\<lambda>(p :: jsstring \<times> jsstring) (n :: nat).
       (Inl ?e :: js_error + generated_todo, Suc n)"
  have v: "valid (validateInput (Str (ascii ''buy milk'')))"
    by (simp add: ascii_def trim_def is_whitespace_def hasValidContent_def
        is_valid_content_char_def)
  have k: "truthy (Some (ascii ''key''))"
    by (simp add: ascii_def)
  have f: "?gw (preprocessInput (ascii ''buy milk''), ascii ''2026-01-04'') 0 = (Inl ?e, 1)"
    by simp
  have n: "is_network_error ?e"
    by (simp add: is_network_error_def)
  have j: "\<not> is_json_error ?e"
    by (simp add: is_json_error_def message_includes_def ascii_def)
  have a: "\<not> is_auth_error ?e"
    by (simp add: is_auth_error_def message_includes_def ascii_def)
  have q: "\<not> is_quota_error ?e"
    by (simp add: is_quota_error_def message_includes_def ascii_def)
  have t: "\<not> is_timeout_error ?e"
    by (simp add: is_timeout_error_def message_includes_def ascii_def)
  have c: "catch_generate ?e = failure 503 msg_network_failed"
    using n j a q t by (simp add: catch_generate_def)
  show ?thesis
    using generate_gateway_failure_status[where generateObject="?gw" and parse="iso_parse 0"
        and tz=0, OF v k f] v k c
    by simp
qed

text \<open>
  The claim as stated fails: a network failure (code \<open>ECONNREFUSED\<close>) whose message
  holds \<open>429\<close>, here in a port number, matches the quota test first and is answered
  with 429, not 503.
\<close>

theorem generate_network_failure_counterexample:
  "is_network_error \<lparr>name = Some (ascii ''Error''),
       message = Some (ascii ''connect ECONNREFUSED 127.0.0.1:4290''),
       code = Some (ascii ''ECONNREFUSED'')\<rparr> \<and>
   status (fst (POST_generate (iso_parse 0) 0 (Some (ascii ''key'')) (ascii ''2026-01-04'')
     (\<lambda>p n. (Inl \<lparr>name = Some (ascii ''Error''),
                     message = Some (ascii ''connect ECONNREFUSED 127.0.0.1:4290''),
                     code = Some (ascii ''ECONNREFUSED'')\<rparr>, Suc n))
     (Inr (Str (ascii ''buy milk''))) (0::nat))) = 429"
proof -
  let ?e = "\<lparr>name = Some (ascii ''Error''),
       message = Some (ascii ''connect ECONNREFUSED 127.0.0.1:4290''),
       code = Some (ascii ''ECONNREFUSED'')\<rparr>"
  have n: "is_network_error ?e"
    by (simp add: is_network_error_def)
  have j: "\<not> is_json_error ?e"
    by (simp add: is_json_error_def message_includes_def ascii_def)
  have a: "\<not> is_auth_error ?e"
    by (simp add: is_auth_error_def message_includes_def ascii_def)
  have q: "is_quota_error ?e"
    by (simp add: is_quota_error_def message_includes_def ascii_def)
  have v: "valid (validateInput (Str (ascii ''buy milk'')))"
    by (simp add: ascii_def trim_def is_whitespace_def hasValidContent_def
        is_valid_content_char_def)
  have "POST_generate (iso_parse 0) 0 (Some (ascii ''key'')) (ascii ''2026-01-04'')
     (\<lambda>p n. (Inl ?e, Suc n)) (Inr (Str (ascii ''buy milk''))) (0::nat) =
     (catch_generate ?e, 1)"
    using v by (simp add: POST_generate_def Let_def ascii_def del: validateInput.simps)
  then show ?thesis
    using n j a q by (simp add: catch_generate_status)
qed

subsection \<open>The week window\<close>

lemma localDay_setHours:
  "0 \<le> h * 3600000 + m * 60000 + s * 1000 + ms \<Longrightarrow>
   h * 3600000 + m * 60000 + s * 1000 + ms < msPerDay \<Longrightarrow>
   localDay tz (setHours tz t h m s ms) = localDay tz t"
  by (simp add: localDay_def setHours_def msPerDay_def div_pos_pos_trivial)

lemma localDay_setDate_rel: "localDay tz (setDate_rel t k) = localDay tz t + k"
  by (simp add: localDay_def setDate_rel_def msPerDay_def add.commute add.left_commute)

lemma localDay_week_monday:
  "localDay tz (week_monday tz now) = localDay tz now + mondayOffset (getDay tz now)"
  by (simp add: week_monday_def Let_def localDay_setHours localDay_setDate_rel msPerDay_def)

lemma week_monday_eq:
  "week_monday tz now = (localDay tz now + mondayOffset (getDay tz now)) * msPerDay - tz"
  by (simp add: week_monday_def Let_def setHours_def localDay_setDate_rel)

lemma week_sunday_eq:
  "week_sunday tz now = week_monday tz now + 7 * msPerDay - 1"
proof -
  have "week_sunday tz now = (localDay tz (week_monday tz now) + 6) * msPerDay + 86399999 - tz"
    by (simp add: week_sunday_def Let_def setHours_def localDay_setDate_rel)
  also have "\<dots> = (localDay tz now + mondayOffset (getDay tz now) + 6) * msPerDay + 86399999 - tz"
    by (simp only: localDay_week_monday)
  finally show ?thesis
    by (simp add: week_monday_eq msPerDay_def algebra_simps)
qed

lemma getDay_range: "0 \<le> getDay tz t \<and> getDay tz t \<le> 6"
  by (simp add: getDay_def)

lemma mondayOffset_range: "- 6 \<le> mondayOffset (getDay tz t) \<and> mondayOffset (getDay tz t) \<le> 0"
proof -
  have "0 \<le> getDay tz t" "getDay tz t \<le> 6" using getDay_range by simp_all
  then show ?thesis by (auto simp: mondayOffset_def)
qed

lemma getDay_week_monday: "getDay tz (week_monday tz now) = 1"
proof -
  let ?L = "localDay tz now"
  let ?w = "getDay tz now"
  have w: "(?L + 4) mod 7 = ?w" by (simp add: getDay_def)
  have "(?L + 4 + mondayOffset ?w) mod 7 = ((?L + 4) mod 7 + mondayOffset ?w) mod 7"
    by (simp add: mod_add_left_eq)
  also have "\<dots> = (?w + mondayOffset ?w) mod 7" by (simp only: w)
  also have "\<dots> = 1" by (simp add: mondayOffset_def)
  finally have "(?L + 4 + mondayOffset ?w) mod 7 = 1" .
  moreover have "?L + mondayOffset ?w + 4 = ?L + 4 + mondayOffset ?w" by simp
  ultimately show ?thesis
    unfolding getDay_def[of tz "week_monday tz now"] localDay_week_monday by (simp only:)
qed

lemma week_monday_le_now: "week_monday tz now \<le> now"
proof -
  have "mondayOffset (getDay tz now) * msPerDay \<le> 0"
    using mondayOffset_range[of tz now] by (simp add: msPerDay_def)
  then show ?thesis
    using localDay_bounds[of tz now] by (simp add: week_monday_eq algebra_simps)
qed

lemma now_le_week_sunday: "now \<le> week_sunday tz now"
proof -
  have "- 6 * msPerDay \<le> mondayOffset (getDay tz now) * msPerDay"
    using mondayOffset_range[of tz now] by (simp add: msPerDay_def)
  then show ?thesis
    using localDay_bounds[of tz now]
    by (simp add: week_sunday_eq week_monday_eq algebra_simps)
qed


lemma in_week_iff:
  "in_week parse monday sunday s \<longleftrightarrow>
     (\<exists>str x. s = Some str \<and> str \<noteq> [] \<and> parse str = Some x \<and> monday \<le> x \<and> x \<le> sunday)"
  by (cases s) (auto simp: in_week_def date_ge_def date_le_def Let_def split: option.splits)

lemma week_monday_midnight: "(week_monday tz now + tz) mod msPerDay = 0"
  by (simp add: week_monday_eq)

text \<open>
  C6 (as amended). The week window starts at the local midnight of the Monday of the
  current week (6 days before today when today is a Sunday, \<open>1 - currentDay\<close> days from
  today otherwise) and ends at 23:59:59.999 local of the following Sunday, one
  millisecond before the next Monday; today lies within it. \<open>getWeekTodos\<close> keeps exactly
  the todos whose creation timestamp or due timestamp lies within the window, both
  bounds included. So a todo due at Sunday 23:59:59.999 is kept, and a todo due at the
  next Monday 00:00:00.001 is dropped when its creation timestamp is outside the
  window.
\<close>

theorem getWeekTodos_window:
  "getDay tz (week_monday tz now) = 1 \<and>
   (week_monday tz now + tz) mod msPerDay = 0 \<and>
   localDay tz (week_monday tz now) =
     localDay tz now + (if getDay tz now = 0 then - 6 else 1 - getDay tz now) \<and>
   week_sunday tz now = week_monday tz now + 7 * msPerDay - 1 \<and>
   week_monday tz now \<le> now \<and> now \<le> week_sunday tz now \<and>
   getWeekTodos parse tz now ts =
     filter (\<lambda>t.
       (\<exists>x. todo_created_date t \<noteq> [] \<and> parse (todo_created_date t) = Some x \<and>
            week_monday tz now \<le> x \<and> x \<le> week_sunday tz now) \<or>
       (\<exists>d x. todo_due_date t = Some d \<and> d \<noteq> [] \<and> parse d = Some x \<and>
            week_monday tz now \<le> x \<and> x \<le> week_sunday tz now)) ts \<and>
   (\<forall>d. todo \<in> set ts \<and> todo_due_date todo = Some d \<and> d \<noteq> [] \<and>
        parse d = Some (week_sunday tz now) \<longrightarrow>
        todo \<in> set (getWeekTodos parse tz now ts)) \<and>
   (\<forall>d. todo_due_date todo = Some d \<and>
        parse d = Some (week_monday tz now + 7 * msPerDay + 1) \<and>
        \<not> (\<exists>x. todo_created_date todo \<noteq> [] \<and> parse (todo_created_date todo) = Some x \<and>
              week_monday tz now \<le> x \<and> x \<le> week_sunday tz now) \<longrightarrow>
        todo \<notin> set (getWeekTodos parse tz now ts))"
proof -
  let ?mon = "week_monday tz now" and ?sun = "week_sunday tz now"
  let ?P = "\<lambda>t. (\<exists>x. todo_created_date t \<noteq> [] \<and> parse (todo_created_date t) = Some x \<and>
            ?mon \<le> x \<and> x \<le> ?sun) \<or>
       (\<exists>d x. todo_due_date t = Some d \<and> d \<noteq> [] \<and> parse d = Some x \<and>
            ?mon \<le> x \<and> x \<le> ?sun)"
  have f: "getWeekTodos parse tz now ts = filter ?P ts"
    unfolding getWeekTodos_def Let_def in_week_iff by simp
  have off: "localDay tz ?mon =
     localDay tz now + (if getDay tz now = 0 then - 6 else 1 - getDay tz now)"
    by (simp add: localDay_week_monday mondayOffset_def)
  have le: "?mon \<le> ?sun"
    using week_monday_le_now[of tz now] now_le_week_sunday[of now tz] by linarith
  have incl: "\<forall>d. todo \<in> set ts \<and> todo_due_date todo = Some d \<and> d \<noteq> [] \<and>
        parse d = Some ?sun \<longrightarrow> todo \<in> set (getWeekTodos parse tz now ts)"
    using le by (auto simp: f)
  have excl: "\<forall>d. todo_due_date todo = Some d \<and> parse d = Some (?mon + 7 * msPerDay + 1) \<and>
        \<not> (\<exists>x. todo_created_date todo \<noteq> [] \<and> parse (todo_created_date todo) = Some x \<and>
              ?mon \<le> x \<and> x \<le> ?sun) \<longrightarrow>
        todo \<notin> set (getWeekTodos parse tz now ts)"
    by (auto simp: f week_sunday_eq)
  show ?thesis
    using getDay_week_monday[of tz now] week_monday_midnight[of tz now] off
      week_sunday_eq[of tz now] week_monday_le_now[of tz now] now_le_week_sunday[of now tz]
      f incl excl
    by blast
qed


theorem getWeekTodos_window_witness:
  "iso_parse 32400000 (ascii ''2026-01-11T23:59:59.999+09:00'') =
     Some (week_sunday 32400000 1767754800000) \<and>
   iso_parse 32400000 (ascii ''2026-01-12T00:00:00.001+09:00'') =
     Some (week_monday 32400000 1767754800000 + 7 * msPerDay + 1) \<and>
   sample_todo created_2025_12_01 (Some (ascii ''2026-01-11T23:59:59.999+09:00'')) False
     \<in> set (getWeekTodos (iso_parse 32400000) 32400000 1767754800000
              [sample_todo created_2025_12_01 (Some (ascii ''2026-01-11T23:59:59.999+09:00'')) False,
               sample_todo created_2025_12_01 (Some (ascii ''2026-01-12T00:00:00.001+09:00'')) False]) \<and>
   sample_todo created_2025_12_01 (Some (ascii ''2026-01-12T00:00:00.001+09:00'')) False
     \<notin> set (getWeekTodos (iso_parse 32400000) 32400000 1767754800000
              [sample_todo created_2025_12_01 (Some (ascii ''2026-01-11T23:59:59.999+09:00'')) False,
               sample_todo created_2025_12_01 (Some (ascii ''2026-01-12T00:00:00.001+09:00'')) False])"
proof -
  let ?a = "ascii ''2026-01-11T23:59:59.999+09:00''"
  let ?b = "ascii ''2026-01-12T00:00:00.001+09:00''"
  let ?A = "sample_todo created_2025_12_01 (Some ?a) False"
  let ?B = "sample_todo created_2025_12_01 (Some ?b) False"
  have m: "week_monday 32400000 1767754800000 = 1767538800000"
    by code_simp
  have su: "week_sunday 32400000 1767754800000 = 1768143599999"
    by code_simp
  have pa: "iso_parse 32400000 ?a = Some 1768143599999"
    by code_simp
  have pb: "iso_parse 32400000 ?b = Some 1768143600001"
    by code_simp
  have pc: "iso_parse 32400000 (ascii ''2025-12-01T00:00:00.000Z'') = Some 1764547200000"
    by code_simp
  have ne: "?a \<noteq> []" by (simp add: ascii_def)
  have fields: "todo_due_date ?A = Some ?a" "todo_due_date ?B = Some ?b"
    "todo_created_date ?B = ascii ''2025-12-01T00:00:00.000Z''"
    by (simp_all add: sample_todo_def created_2025_12_01_def)
  have h1: "iso_parse 32400000 ?a = Some (week_sunday 32400000 1767754800000)"
    by (simp only: pa su)
  have h2: "iso_parse 32400000 ?b = Some (week_monday 32400000 1767754800000 + 7 * msPerDay + 1)"
    by (simp add: pb m msPerDay_def)
  have h3: "\<not> (\<exists>x. todo_created_date ?B \<noteq> [] \<and>
        iso_parse 32400000 (todo_created_date ?B) = Some x \<and>
        week_monday 32400000 1767754800000 \<le> x \<and> x \<le> week_sunday 32400000 1767754800000)"
    by (simp add: fields pc m)
  have inA: "?A \<in> set [?A, ?B]" by simp
  from getWeekTodos_window[of 32400000 1767754800000 "iso_parse 32400000" "[?A, ?B]" ?A]
    inA fields(1) ne h1
  have A: "?A \<in> set (getWeekTodos (iso_parse 32400000) 32400000 1767754800000 [?A, ?B])"
    by blast
  from getWeekTodos_window[of 32400000 1767754800000 "iso_parse 32400000" "[?A, ?B]" ?B]
    fields(2) h2 h3
  have B: "?B \<notin> set (getWeekTodos (iso_parse 32400000) 32400000 1767754800000 [?A, ?B])"
    by blast
  from h1 h2 A B show ?thesis by blast
qed

text \<open>
  The claim as stated, that a todo due at the next Monday 00:00:00.001 is excluded,
  fails for a todo created within the week: on Wednesday 2026-01-07, 12:00 in UTC+9, a
  todo created at that moment and due on Monday 2026-01-12 at 00:00:00.001 is kept.
\<close>

theorem getWeekTodos_due_next_monday_counterexample:
  "iso_parse 32400000 (ascii ''2026-01-12T00:00:00.001+09:00'') =
     Some (week_monday 32400000 1767754800000 + 7 * msPerDay + 1) \<and>
   iso_parse 32400000 (ascii ''2026-01-07T03:00:00.000Z'') = Some 1767754800000 \<and>
   sample_todo (ascii ''2026-01-07T03:00:00.000Z'')
       (Some (ascii ''2026-01-12T00:00:00.001+09:00'')) False
     \<in> set (getWeekTodos (iso_parse 32400000) 32400000 1767754800000
              [sample_todo (ascii ''2026-01-07T03:00:00.000Z'')
                 (Some (ascii ''2026-01-12T00:00:00.001+09:00'')) False])"
  by code_simp

subsection \<open>Due-date statistics of the analysis\<close>

text \<open>
  C7. \<open>overdueCount\<close> counts the incomplete todos whose due date is before today as
  civil dates; a todo due today is never counted, whatever its time of day. The code
  compares the due instant with the UTC midnight of the UTC+9 date string instead: with
  today = 2026-01-04, an incomplete todo due at 2026-01-04T03:00:00+09:00 (whose civil
  date in UTC+9 is today, and which \<open>dueTodayCount\<close> counts as due today) is counted as
  overdue.
\<close>

theorem overdueCount_due_today_counted:
  "overdueCount (iso_parse 0) (ascii ''2026-01-04'')
     [sample_todo created_2025_12_01 (Some (ascii ''2026-01-04T03:00:00+09:00'')) False] = 1 \<and>
   dueTodayCount (ascii ''2026-01-04'')
     [sample_todo created_2025_12_01 (Some (ascii ''2026-01-04T03:00:00+09:00'')) False] = 1 \<and>
   map_option (localDay 32400000) (iso_parse 0 (ascii ''2026-01-04T03:00:00+09:00'')) =
     parse_ymd (ascii ''2026-01-04'')"
  by code_simp

theorem overdueCount_due_today_counted_witness:
  "truthy (todo_due_date (sample_todo created_2025_12_01
       (Some (ascii ''2026-01-04T03:00:00+09:00'')) False)) \<and>
   \<not> todo_completed (sample_todo created_2025_12_01
       (Some (ascii ''2026-01-04T03:00:00+09:00'')) False) \<and>
   overdueTodos (iso_parse 0) (ascii ''2026-01-04'')
     [sample_todo created_2025_12_01 (Some (ascii ''2026-01-04T03:00:00+09:00'')) False] =
     [sample_todo created_2025_12_01 (Some (ascii ''2026-01-04T03:00:00+09:00'')) False]"
proof -
  let ?T = "sample_todo created_2025_12_01 (Some (ascii ''2026-01-04T03:00:00+09:00'')) False"
  have g: "truthy (todo_due_date ?T)" "\<not> todo_completed ?T"
    by (simp_all add: sample_todo_def ascii_def)
  from overdueCount_due_today_counted
  have "length (overdueTodos (iso_parse 0) (ascii ''2026-01-04'') [?T]) = 1"
    by (simp only: overdueCount_def)
  then have "overdueTodos (iso_parse 0) (ascii ''2026-01-04'') [?T] = [?T]"
    by (simp add: overdueTodos_def split: if_splits)
  with g show ?thesis by simp
qed

subsection \<open>Double-precision arithmetic\<close>

text \<open>
  \<open>binade\<close> is the binary exponent, and \<open>fl\<close> returns a double (a 53-bit significand
  times a power of two) at distance at most half a unit in the last place.
\<close>

lemma bit_length_nonneg: "0 \<le> bit_length n"
  by (induction n rule: bit_length.induct) (simp add: bit_length.simps)

lemma bit_length_pos: "0 < n \<Longrightarrow> 1 \<le> bit_length n"
  using bit_length_nonneg[of "n div 2"] by (subst bit_length.simps) simp

lemma bit_length_bounds:
  "0 < n \<Longrightarrow> 2 ^ nat (bit_length n - 1) \<le> n \<and> n < 2 ^ nat (bit_length n)"
proof (induction n rule: bit_length.induct)
  case (1 n)
  show ?case
  proof (cases "n = 1")
    case True
    then show ?thesis by (simp add: bit_length.simps)
  next
    case False
    with 1(2) have m: "0 < n div 2" by simp
    let ?b = "bit_length (n div 2)"
    from 1(1)[OF _ m] 1(2) have ih: "2 ^ nat (?b - 1) \<le> n div 2" "n div 2 < 2 ^ nat ?b"
      by simp_all
    have b: "1 \<le> ?b" using bit_length_pos[OF m] .
    have bl: "bit_length n = 1 + ?b" using 1(2) by (subst bit_length.simps) simp
    have e1: "nat (bit_length n - 1) = Suc (nat (?b - 1))" using b bl by simp
    have e2: "nat (bit_length n) = Suc (nat ?b)" using b bl by simp
    have "2 * (n div 2) \<le> n" "n \<le> 2 * (n div 2) + 1" by presburger+
    with ih show ?thesis unfolding e1 e2 by simp
  qed
qed


lemma pow2_pos: "0 < pow2 e"
  by (simp add: pow2_def)

lemma pow2_neg: "0 \<le> k \<Longrightarrow> pow2 (- k) = 1 / 2 ^ nat k"
  by (simp add: pow2_def)

lemma binade_bounds:
  assumes "0 < x"
  shows "pow2 (binade x) \<le> x \<and> x < pow2 (binade x + 1)"
proof (cases "1 \<le> x")
  case True
  let ?n = "\<lfloor>x\<rfloor>"
  have n: "0 < ?n" using True by simp
  have bl: "1 \<le> bit_length ?n" using bit_length_pos[OF n] .
  from bit_length_bounds[OF n]
  have lo: "2 ^ nat (bit_length ?n - 1) \<le> ?n" and hi: "?n + 1 \<le> 2 ^ nat (bit_length ?n)"
    by simp_all
  have "(of_int (2 ^ nat (bit_length ?n - 1)) :: rat) \<le> of_int ?n"
    using lo by (simp only: of_int_le_iff)
  also have "\<dots> \<le> x" by simp
  finally have 1: "(2::rat) ^ nat (bit_length ?n - 1) \<le> x" by simp
  have "x < of_int (?n + 1)" by linarith
  also have "\<dots> \<le> (of_int (2 ^ nat (bit_length ?n)) :: rat)"
    using hi by (simp only: of_int_le_iff)
  finally have 2: "x < (2::rat) ^ nat (bit_length ?n)" by simp
  show ?thesis using True 1 2 bl by (simp add: binade_def pow2_def)
next
  case False
  let ?y = "1 / x"
  let ?m = "\<lceil>?y\<rceil> - 1"
  have y: "1 < ?y" using False assms by simp
  then have m: "0 < ?m" by linarith
  let ?k = "bit_length ?m"
  have k: "1 \<le> ?k" using bit_length_pos[OF m] .
  from bit_length_bounds[OF m]
  have lo: "2 ^ nat (?k - 1) \<le> ?m" and hi: "?m + 1 \<le> 2 ^ nat ?k"
    by simp_all
  have "?y \<le> of_int (?m + 1)" by simp
  also have "\<dots> \<le> (of_int (2 ^ nat ?k) :: rat)"
    using hi by (simp only: of_int_le_iff)
  finally have 1: "?y \<le> 2 ^ nat ?k" by simp
  have "(of_int (2 ^ nat (?k - 1)) :: rat) \<le> of_int ?m"
    using lo by (simp only: of_int_le_iff)
  also have "\<dots> < ?y" by linarith
  finally have 2: "(2::rat) ^ nat (?k - 1) < ?y" by simp
  have a: "1 / 2 ^ nat ?k \<le> x"
    using 1 assms by (simp add: field_simps)
  have b: "x < 1 / 2 ^ nat (?k - 1)"
    using 2 assms by (simp add: field_simps)
  have e: "binade x = - ?k" using False by (simp add: binade_def)
  have p1: "pow2 (- ?k) = 1 / 2 ^ nat ?k" using k by (simp add: pow2_def)
  have p2: "pow2 (1 - ?k) = 1 / 2 ^ nat (?k - 1)"
    using k by (cases "?k = 1") (simp_all add: pow2_def)
  show ?thesis using a b by (simp add: e p1 p2)
qed


lemma pow2_power_int: "pow2 e = power_int 2 e"
  by (simp add: pow2_def power_int_def inverse_eq_divide power_one_over)

lemma pow2_add: "pow2 (a + b) = pow2 a * pow2 b"
  by (simp add: pow2_power_int power_int_add)

lemma pow2_52: "pow2 52 = 4503599627370496" "pow2 53 = 9007199254740992"
  by (simp_all add: pow2_def)

lemma round_half_even_near: "\<bar>of_int (round_half_even r) - r\<bar> \<le> 1 / 2"
proof -
  have "of_int \<lfloor>r\<rfloor> \<le> r" "r < of_int \<lfloor>r\<rfloor> + 1" by linarith+
  then show ?thesis
    by (auto simp: round_half_even_def Let_def)
qed

lemma round_half_even_floor:
  "\<lfloor>r\<rfloor> \<le> round_half_even r" "round_half_even r \<le> \<lfloor>r\<rfloor> + 1"
  by (auto simp: round_half_even_def Let_def)

lemma round_half_even_of_int: "round_half_even (of_int k) = k"
  by (simp add: round_half_even_def)

lemma round_half_even_mono_int:
  "of_int k \<le> r \<Longrightarrow> k \<le> round_half_even r" "r \<le> of_int k \<Longrightarrow> round_half_even r \<le> k"
proof -
  show "of_int k \<le> r \<Longrightarrow> k \<le> round_half_even r"
  proof -
    assume "of_int k \<le> r"
    then have "k \<le> \<lfloor>r\<rfloor>" by (simp add: le_floor_iff)
    with round_half_even_floor(1)[of r] show ?thesis by linarith
  qed
  show "r \<le> of_int k \<Longrightarrow> round_half_even r \<le> k"
  proof -
    assume a: "r \<le> of_int k"
    show ?thesis
    proof (cases "r = of_int k")
      case True
      then show ?thesis by (simp add: round_half_even_of_int)
    next
      case False
      with a have "r < of_int k" by simp
      then have "\<lfloor>r\<rfloor> < k" by (simp add: floor_less_iff)
      with round_half_even_floor(2)[of r] show ?thesis by linarith
    qed
  qed
qed

lemma fl_nearest:
  assumes "0 < x"
  shows "\<exists>m. fl x = of_int m * pow2 (binade x - 52) \<and>
             2 ^ 52 \<le> m \<and> m \<le> 2 ^ 53 \<and>
             \<bar>fl x - x\<bar> \<le> pow2 (binade x - 52) / 2"
proof -
  let ?e = "binade x"
  let ?q = "pow2 (?e - 52)"
  let ?m = "round_half_even (x / ?q)"
  have q: "0 < ?q" by (rule pow2_pos)
  have fl: "fl x = of_int ?m * ?q"
    using assms by (simp add: fl_def Let_def)
  from binade_bounds[OF assms] have lo: "pow2 ?e \<le> x" and hi: "x < pow2 (?e + 1)" by simp_all
  have "pow2 ?e = pow2 (52 + (?e - 52))"
    by (rule arg_cong[where f=pow2]) simp
  moreover have "pow2 (?e + 1) = pow2 (53 + (?e - 52))"
    by (rule arg_cong[where f=pow2]) simp
  ultimately have "pow2 ?e = pow2 52 * ?q" "pow2 (?e + 1) = pow2 53 * ?q"
    by (simp_all only: pow2_add)
  with lo hi q have r: "of_int (2 ^ 52) \<le> x / ?q" "x / ?q \<le> of_int (2 ^ 53)"
    by (simp_all add: pow2_52 field_simps)
  have m: "2 ^ 52 \<le> ?m" "?m \<le> 2 ^ 53"
    using round_half_even_mono_int(1)[OF r(1)] round_half_even_mono_int(2)[OF r(2)] by simp_all
  have "fl x - x = (of_int ?m - x / ?q) * ?q"
    using q by (simp add: fl left_diff_distrib)
  then have "\<bar>fl x - x\<bar> = \<bar>of_int ?m - x / ?q\<bar> * \<bar>?q\<bar>"
    by (simp only: abs_mult)
  also have "\<dots> = \<bar>of_int ?m - x / ?q\<bar> * ?q"
    using q by simp
  finally have "\<bar>fl x - x\<bar> = \<bar>of_int ?m - x / ?q\<bar> * ?q" .
  also have "\<dots> \<le> (1 / 2) * ?q"
    using round_half_even_near[of "x / ?q"] q by (intro mult_right_mono) simp_all
  finally have "\<bar>fl x - x\<bar> \<le> ?q / 2" by simp
  with fl m show ?thesis by blast
qed

lemma fl_known_values:
  "fl (1 / 10) = 3602879701896397 / 36028797018963968"
  "fl (3 / 4) = 3 / 4"
  "js_mul (js_div 1 10) 3 = 5404319552844596 / 18014398509481984"
  "js_div 23 40 = 2589569785738035 / 4503599627370496"
  by code_simp+

lemma completionRate_23_40: "Math_round (js_mul (js_div 23 40) 100) = 57"
  by code_simp

lemma completionRate_3_4: "Math_round (js_mul (js_div 3 4) 100) = 75"
  by code_simp


subsection \<open>Statistics of the summary component\<close>

text \<open>
  C8. \<open>completionRate\<close> is \<open>round(100 * completed / total)\<close>. The code computes
  \<open>Math.round((completed / total) * 100)\<close> in double precision: for 23 completed todos
  out of 40 the quotient is rounded below 0.575, the product is 57.49999999999999 and
  the rate is 57, while \<open>100 * 23 / 40 = 57.5\<close> rounds to 58. An empty list gives 0 and 3
  completed todos out of 4 give 75.
\<close>

theorem getStats_completionRate_tie:
  "completionRate (getStats parse tz now []) = 0 \<and>
   completionRate (getStats parse tz now
     (replicate 3 (sample_todo created_2025_12_01 None True) @
      replicate 1 (sample_todo created_2025_12_01 None False))) = 75 \<and>
   completionRate (getStats parse tz now
     (replicate 23 (sample_todo created_2025_12_01 None True) @
      replicate 17 (sample_todo created_2025_12_01 None False))) = 57 \<and>
   \<lfloor>(100 * 23 / 40 :: rat) + 1 / 2\<rfloor> = 58"
proof -
  have c: "todo_completed (sample_todo created_2025_12_01 None True)"
    "\<not> todo_completed (sample_todo created_2025_12_01 None False)"
    by (simp_all add: sample_todo_def)
  have "completionRate (getStats parse tz now []) = 0"
    by (simp add: getStats_def)
  moreover have "completionRate (getStats parse tz now
     (replicate 3 (sample_todo created_2025_12_01 None True) @
      replicate 1 (sample_todo created_2025_12_01 None False))) =
     Math_round (js_mul (js_div 3 4) 100)"
    by (simp add: getStats_def Let_def c)
  moreover have "completionRate (getStats parse tz now
     (replicate 23 (sample_todo created_2025_12_01 None True) @
      replicate 17 (sample_todo created_2025_12_01 None False))) =
     Math_round (js_mul (js_div 23 40) 100)"
    by (simp add: getStats_def Let_def c)
  ultimately show ?thesis
    by (simp add: completionRate_23_40 completionRate_3_4)
qed

end
